theory Spec2Isabelle
  imports Main "HOL-Library.Sublist" "HOL-Library.Word"
begin

section \<open>The Python runtime, as far as the dump and restore code uses it\<close>

text \<open>
  A Python \<open>str\<close> is modelled as a \<open>string\<close>, one \<open>char\<close> per character (the
  characters below 256). The quote, the newline and the tab are written by their codes.
\<close>

abbreviation sq :: char where "sq \<equiv> CHR 0x27"
abbreviation dq :: char where "dq \<equiv> CHR 0x22"
abbreviation nl :: char where "nl \<equiv> CHR 0x0A"
abbreviation tab :: char where "tab \<equiv> CHR 0x09"
abbreviation bsl :: char where "bsl \<equiv> CHR 0x5C"

text \<open>\<open>s.replace(old, new)\<close>: every non-overlapping occurrence, from the left. After a
  match at \<open>c # cs\<close> the scan resumes \<open>length old\<close> characters on, which is
  \<open>drop (length old - 1) cs\<close>. An empty \<open>old\<close> matches before every character and at
  the end.\<close>

fun py_replace :: "string \<Rightarrow> string \<Rightarrow> string \<Rightarrow> string" where
  "py_replace old new [] = (if old = [] then new else [])"
| "py_replace old new (c # cs) =
     (if old = [] then new @ c # py_replace old new cs
      else if prefix old (c # cs) then new @ py_replace old new (drop (length old - 1) cs)
      else c # py_replace old new cs)"

text \<open>\<open>sep.join(xs)\<close> on a list of strings.\<close>

fun py_join :: "string \<Rightarrow> string list \<Rightarrow> string" where
  "py_join sep [] = []"
| "py_join sep [x] = x"
| "py_join sep (x # y # ys) = x @ sep @ py_join sep (y # ys)"

text \<open>\<open>sub in s\<close> on strings.\<close>

fun py_in :: "string \<Rightarrow> string \<Rightarrow> bool" where
  "py_in sub [] = (sub = [])"
| "py_in sub (c # cs) = (prefix sub (c # cs) \<or> py_in sub cs)"

text \<open>\<open>s.split(c)\<close> for a separator of one character: the fragments between the
  separators, empty ones included, so the result is never empty.\<close>

fun py_split :: "char \<Rightarrow> string \<Rightarrow> string list" where
  "py_split c [] = [[]]"
| "py_split c (x # xs) =
     (if x = c then [] # py_split c xs
      else (case py_split c xs of [] \<Rightarrow> [[x]] | w # ws \<Rightarrow> (x # w) # ws))"

text \<open>\<open>s.strip()\<close>: the whitespace characters of \<open>str.isspace\<close> below 256.\<close>

definition isspace :: "char \<Rightarrow> bool" where
  "isspace c = (of_char c \<in> {9, 10, 11, 12, 13, 28, 29, 30, 31, 32, 133, 160 :: nat})"

definition py_strip :: "string \<Rightarrow> string" where
  "py_strip s = rev (dropWhile isspace (rev (dropWhile isspace s)))"

text \<open>Decimal and hexadecimal text.\<close>

definition digit :: "nat \<Rightarrow> char" where
  "digit n = ''0123456789abcdef'' ! n"

fun str_nat :: "nat \<Rightarrow> string" where
  "str_nat n = (if n < 10 then [digit n] else str_nat (n div 10) @ [digit (n mod 10)])"

declare str_nat.simps [simp del]

definition str_int :: "int \<Rightarrow> string" where
  "str_int i = (if i < 0 then CHR ''-'' # str_nat (nat (- i)) else str_nat (nat i))"

definition zfill :: "nat \<Rightarrow> string \<Rightarrow> string" where
  "zfill w s = replicate (w - length s) CHR ''0'' @ s"

definition hex2 :: "8 word \<Rightarrow> string" where
  "hex2 b = [digit (unat b div 16), digit (unat b mod 16)]"

text \<open>\<open>bytes.hex()\<close>: two lower-case digits for each byte.\<close>

definition bytes_hex :: "8 word list \<Rightarrow> string" where
  "bytes_hex bs = concat (map hex2 bs)"

text \<open>\<open>str()\<close> of a \<open>bytes\<close> object is its \<open>repr\<close>: the double quote is the delimiter
  only when the bytes hold a single quote and no double quote.\<close>

definition bytes_repr_byte :: "char \<Rightarrow> 8 word \<Rightarrow> string" where
  "bytes_repr_byte quote b =
     (let c = char_of (unat b) in
      if c = quote \<or> c = bsl then [bsl, c]
      else if c = tab then [bsl, CHR ''t'']
      else if c = nl then [bsl, CHR ''n'']
      else if c = CHR 0x0D then [bsl, CHR ''r'']
      else if unat b < 32 \<or> 127 \<le> unat b then [bsl, CHR ''x''] @ hex2 b
      else [c])"

definition bytes_repr :: "8 word list \<Rightarrow> string" where
  "bytes_repr bs =
     (let quote = (if 39 \<in> set bs \<and> 34 \<notin> set bs then dq else sq)
      in CHR ''b'' # quote # concat (map (bytes_repr_byte quote) bs) @ [quote])"

subsection \<open>Values a driver hands to the encoder\<close>

text \<open>A \<open>date\<close> has a year, a month and a day; a \<open>datetime\<close> is a \<open>date\<close> with a time of
  day (the class \<open>datetime\<close> is a subclass of \<open>date\<close>).\<close>

record pydate =
  year :: nat
  month :: nat
  day :: nat

record pydatetime = pydate +
  hour :: nat
  minute :: nat
  second :: nat

text \<open>The values of a row. A float, a memoryview and an object of any other class carry
  the text \<open>str()\<close> gives for them, which is all the encoders read; a list carries its
  items and that text.\<close>

datatype pyvalue =
    PNone
  | PStr string
  | PBool bool
  | PInt int
  | PFloat string
  | PDatetime pydatetime
  | PDate pydate
  | PBytes "8 word list"
  | PList "pyvalue list" string
  | PMemoryview "8 word list" string
  | PObject string

datatype pyclass =
  Cstr | Cbool | Cint | Cfloat | Cdatetime | Cdate | Cbytes | Clist | Cmemoryview | Cother | CNoneType

fun class_of :: "pyvalue \<Rightarrow> pyclass" where
  "class_of PNone = CNoneType"
| "class_of (PStr s) = Cstr"
| "class_of (PBool b) = Cbool"
| "class_of (PInt i) = Cint"
| "class_of (PFloat r) = Cfloat"
| "class_of (PDatetime t) = Cdatetime"
| "class_of (PDate d) = Cdate"
| "class_of (PBytes bs) = Cbytes"
| "class_of (PList xs r) = Clist"
| "class_of (PMemoryview bs r) = Cmemoryview"
| "class_of (PObject r) = Cother"

text \<open>The subclass relation of the classes above: \<open>bool\<close> derives from \<open>int\<close> and
  \<open>datetime\<close> from \<open>date\<close>.\<close>

definition issubclass :: "pyclass \<Rightarrow> pyclass \<Rightarrow> bool" where
  "issubclass c d = (c = d \<or> (c = Cbool \<and> d = Cint) \<or> (c = Cdatetime \<and> d = Cdate))"

text \<open>\<open>isinstance(value, (c1, ..., cn))\<close>.\<close>

definition isinstance :: "pyvalue \<Rightarrow> pyclass list \<Rightarrow> bool" where
  "isinstance v cs = list_ex (issubclass (class_of v)) cs"

text \<open>\<open>strftime\<close> reads six fields; a \<open>date\<close> has the time of day zero. The
  directives are formatted as the C library of Linux formats them: \<open>%Y\<close> is the year in
  decimal with no padding, the others are padded to two digits.\<close>

fun time_fields :: "pyvalue \<Rightarrow> nat \<times> nat \<times> nat \<times> nat \<times> nat \<times> nat" where
  "time_fields (PDatetime t) = (year t, month t, day t, hour t, minute t, second t)"
| "time_fields (PDate d) = (year d, month d, day d, 0, 0, 0)"
| "time_fields v = (0, 0, 0, 0, 0, 0)"

fun directive :: "char \<Rightarrow> nat \<times> nat \<times> nat \<times> nat \<times> nat \<times> nat \<Rightarrow> string" where
  "directive c (y, m, d, H, M, S) =
     (if c = CHR ''Y'' then str_nat y
      else if c = CHR ''m'' then zfill 2 (str_nat m)
      else if c = CHR ''d'' then zfill 2 (str_nat d)
      else if c = CHR ''H'' then zfill 2 (str_nat H)
      else if c = CHR ''M'' then zfill 2 (str_nat M)
      else if c = CHR ''S'' then zfill 2 (str_nat S)
      else [CHR ''%'', c])"

fun strftime_fields :: "string \<Rightarrow> nat \<times> nat \<times> nat \<times> nat \<times> nat \<times> nat \<Rightarrow> string" where
  "strftime_fields [] t = []"
| "strftime_fields [c] t = [c]"
| "strftime_fields (c # d # rest) t =
     (if c = CHR ''%'' then directive d t @ strftime_fields rest t
      else c # strftime_fields (d # rest) t)"

definition strftime :: "pyvalue \<Rightarrow> string \<Rightarrow> string" where
  "strftime v fmt = strftime_fields fmt (time_fields v)"

text \<open>\<open>isoformat\<close>, which \<open>str()\<close> of a \<open>date\<close> and of a \<open>datetime\<close> gives: the year
  padded to four digits on every platform.\<close>

definition isoformat_date :: "nat \<Rightarrow> nat \<Rightarrow> nat \<Rightarrow> string" where
  "isoformat_date y m d = zfill 4 (str_nat y) @ ''-'' @ zfill 2 (str_nat m) @ ''-'' @ zfill 2 (str_nat d)"

definition isoformat_time :: "nat \<Rightarrow> nat \<Rightarrow> nat \<Rightarrow> string" where
  "isoformat_time H M S = zfill 2 (str_nat H) @ '':'' @ zfill 2 (str_nat M) @ '':'' @ zfill 2 (str_nat S)"

text \<open>\<open>str(value)\<close>.\<close>

fun py_str :: "pyvalue \<Rightarrow> string" where
  "py_str PNone = ''None''"
| "py_str (PStr s) = s"
| "py_str (PBool b) = (if b then ''True'' else ''False'')"
| "py_str (PInt i) = str_int i"
| "py_str (PFloat r) = r"
| "py_str (PDatetime t) =
     isoformat_date (year t) (month t) (day t) @ '' '' @ isoformat_time (hour t) (minute t) (second t)"
| "py_str (PDate d) = isoformat_date (year d) (month d) (day d)"
| "py_str (PBytes bs) = bytes_repr bs"
| "py_str (PList xs r) = r"
| "py_str (PMemoryview bs r) = r"
| "py_str (PObject r) = r"

subsection \<open>Exceptions\<close>

text \<open>A driver fault carries its text. A domain error of \<open>exceptions.py\<close> carries its
  message and, raised \<open>from e\<close>, its cause.\<close>

datatype pyerror =
    MySQLError string
  | Psycopg2Error string
  | TypeError
  | KeyError string
  | DatabaseConnectionError string string pyerror
  | BackupError string pyerror
  | RestoreError string pyerror

fun str_error :: "pyerror \<Rightarrow> string" where
  "str_error (MySQLError m) = m"
| "str_error (Psycopg2Error m) = m"
| "str_error TypeError = []"
| "str_error (KeyError k) = sq # k @ [sq]"
| "str_error (DatabaseConnectionError h u c) =
     ''Failed to connect to the database at '' @ h @ '' with user '' @ u @ ''.''"
| "str_error (BackupError m c) = m"
| "str_error (RestoreError m c) = m"

section \<open>The value encoders\<close>

text \<open>\<open>_format_value\<close> of \<open>mysql_backup.py\<close>.\<close>

definition mysql_format_value :: "pyvalue \<Rightarrow> string" where
  "mysql_format_value v =
     (if v = PNone then ''NULL''
      else if isinstance v [Cstr] then sq # py_replace [sq] [sq, sq] (py_str v) @ [sq]
      else if isinstance v [Cbool] then (if v = PBool True then ''TRUE'' else ''FALSE'')
      else if isinstance v [Cdatetime] then sq # strftime v ''%Y-%m-%d %H:%M:%S'' @ [sq]
      else if isinstance v [Cint, Cfloat] then py_str v
      else if isinstance v [Cbytes] then ''0x'' @ (case v of PBytes bs \<Rightarrow> bytes_hex bs | _ \<Rightarrow> [])
      else sq # py_replace [sq] [sq, sq] (py_str v) @ [sq])"

text \<open>\<open>format_value\<close> of \<open>postgres_backup.py\<close>. \<open>','.join(value)\<close> raises
  \<open>TypeError\<close> on an item that is not a string.\<close>

fun join_items :: "pyvalue list \<Rightarrow> pyerror + string list" where
  "join_items [] = Inr []"
| "join_items (x # xs) =
     (case x of
        PStr s \<Rightarrow> (case join_items xs of Inl e \<Rightarrow> Inl e | Inr ss \<Rightarrow> Inr (s # ss))
      | _ \<Rightarrow> Inl TypeError)"

definition format_value :: "pyvalue \<Rightarrow> pyerror + string" where
  "format_value v =
     (if v = PNone then Inr ''NULL''
      else if isinstance v [Cdatetime, Cdate] then
        (if isinstance v [Cdate] then Inr (sq # strftime v ''%Y-%m-%d'' @ [sq])
         else Inr (sq # strftime v ''%Y-%m-%d %H:%M:%S'' @ [sq]))
      else if isinstance v [Clist] then
        (case join_items (case v of PList xs r \<Rightarrow> xs | _ \<Rightarrow> []) of
           Inl e \<Rightarrow> Inl e
         | Inr ss \<Rightarrow> Inr (sq # CHR ''{'' # py_join '','' ss @ [CHR ''}'', sq]))
      else if isinstance v [Cstr] then Inr (sq # py_replace [sq] [sq, sq] (py_str v) @ [sq])
      else if isinstance v [Cmemoryview] then Inr (sq # ''<memory>'' @ [sq])
      else Inr (py_str v))"

text \<open>Reading a literal back, as the round trip of the specification describes it: the
  outer quotes are stripped and each doubled quote stands for one quote. A lone quote
  inside is no literal.\<close>

fun collapse_quotes :: "string \<Rightarrow> string option" where
  "collapse_quotes [] = Some []"
| "collapse_quotes [c] = (if c = sq then None else Some [c])"
| "collapse_quotes (c # d # rest) =
     (if c = sq then (if d = sq then map_option ((#) sq) (collapse_quotes rest) else None)
      else map_option ((#) c) (collapse_quotes (d # rest)))"

definition parse_literal :: "string \<Rightarrow> string option" where
  "parse_literal l =
     (case l of
        [] \<Rightarrow> None
      | c # body \<Rightarrow>
          if c = sq \<and> body \<noteq> [] \<and> last body = sq then collapse_quotes (butlast body)
          else None)"

section \<open>Restore: splitting a script and replaying it\<close>

text \<open>\<open>read_sql_commands_from_file\<close>, the same body in \<open>mysql_restore.py\<close> and in
  \<open>postgres_restore.py\<close>: \<open>file.read().split(';')[:-1]\<close>, here on the text of the file.
  The slice \<open>[:-1]\<close> is every element but the last.\<close>

definition mysql_read_sql_commands_from_file :: "string \<Rightarrow> string list" where
  "mysql_read_sql_commands_from_file text = butlast (py_split CHR '';'' text)"

definition postgres_read_sql_commands_from_file :: "string \<Rightarrow> string list" where
  "postgres_read_sql_commands_from_file text = butlast (py_split CHR '';'' text)"

text \<open>The server at the other end of the connection: given the statements executed so
  far and the next one, the text of the fault it answers with, or \<open>None\<close> when the
  statement executes.\<close>

type_synonym server = "string list \<Rightarrow> string \<Rightarrow> string option"

text \<open>\<open>MySQLBackupRestore.restore\<close>: the loop skips a command that is blank, and a
  \<open>pymysql.MySQLError\<close> leaves as a \<open>RestoreError\<close>. The result is the list of the
  statements executed and the exception, if one was raised.\<close>

fun mysql_restore_loop :: "server \<Rightarrow> string list \<Rightarrow> string list \<Rightarrow> string list \<times> pyerror option" where
  "mysql_restore_loop srv done [] = (done, None)"
| "mysql_restore_loop srv done (command # rest) =
     (if py_strip command \<noteq> [] then
        (case srv done command of
           Some m \<Rightarrow> (done, Some (MySQLError m))
         | None \<Rightarrow> mysql_restore_loop srv (done @ [command]) rest)
      else mysql_restore_loop srv done rest)"

definition mysql_restore :: "server \<Rightarrow> string list \<Rightarrow> string list \<times> pyerror option" where
  "mysql_restore srv sql_commands =
     (case mysql_restore_loop srv [] sql_commands of
        (done, Some (MySQLError m)) \<Rightarrow>
          (done, Some (RestoreError
             (''An error occurred while restoring the database: '' @ str_error (MySQLError m))
             (MySQLError m)))
      | r \<Rightarrow> r)"

text \<open>\<open>PostgresBackupRestore.restore\<close>: every command is executed, and the method has no
  handler.\<close>

fun postgres_restore_loop :: "server \<Rightarrow> string list \<Rightarrow> string list \<Rightarrow> string list \<times> pyerror option" where
  "postgres_restore_loop srv done [] = (done, None)"
| "postgres_restore_loop srv done (command # rest) =
     (case srv done command of
        Some m \<Rightarrow> (done, Some (Psycopg2Error m))
      | None \<Rightarrow> postgres_restore_loop srv (done @ [command]) rest)"

definition postgres_restore :: "server \<Rightarrow> string list \<Rightarrow> string list \<times> pyerror option" where
  "postgres_restore srv sql_commands = postgres_restore_loop srv [] sql_commands"

text \<open>The text after the last terminator of a script, and whether the script ends with
  the terminator.\<close>

definition final_fragment :: "string \<Rightarrow> string" where
  "final_fragment text = rev (takeWhile (\<lambda>c. c \<noteq> CHR '';'') (rev text))"

definition ends_with_terminator :: "string \<Rightarrow> bool" where
  "ends_with_terminator text = (text \<noteq> [] \<and> last text = CHR '';'')"

section \<open>Results that may raise\<close>

text \<open>A call either raises (\<open>Inl\<close>) or returns (\<open>Inr\<close>); \<open>bindE\<close> runs the rest of the
  body on what the call returned, and an exception ends the body.\<close>

definition bindE :: "pyerror + 'a \<Rightarrow> ('a \<Rightarrow> pyerror + 'b) \<Rightarrow> pyerror + 'b" where
  "bindE m f = (case m of Inl e \<Rightarrow> Inl e | Inr x \<Rightarrow> f x)"

text \<open>A \<open>dict\<close> with string keys, in insertion order: assigning to a key that is present
  replaces its value in place.\<close>

fun dict_set :: "string \<Rightarrow> 'v \<Rightarrow> (string \<times> 'v) list \<Rightarrow> (string \<times> 'v) list" where
  "dict_set k v [] = [(k, v)]"
| "dict_set k v ((k', v') # d) = (if k' = k then (k, v) # d else (k', v') # dict_set k v d)"

definition unlines :: "string list \<Rightarrow> string" where
  "unlines ls = concat (map (\<lambda>l. l @ [nl]) ls)"

section \<open>The Postgres backup\<close>

subsection \<open>The database as the catalog queries see it\<close>

text \<open>A column of \<open>information_schema.columns\<close>: name, data type, \<open>is_nullable\<close> and the
  default, which may be \<open>None\<close>. A foreign key: constraint, table, column, referenced
  table, referenced column.\<close>

type_synonym column = "string \<times> string \<times> string \<times> string option"
type_synonym foreign_key = "string \<times> string \<times> string \<times> string \<times> string"

record sequence_row =
  start_value :: int
  increment_by :: int
  min_value :: "int option"
  max_value :: "int option"
  cache_size :: int

datatype pg_query =
    ListBaseTables
  | TableDefinitions string
  | ForeignKeys string
  | PrimaryKeys string
  | Sequences
  | SequenceRow string
  | UserDefinedTypes
  | TablePermissions string
  | SelectAllFrom string
  | ColumnNames string

text \<open>The database does not change during a run. \<open>pg_fault\<close> gives the text of the
  driver fault a query raises, or \<open>None\<close> when it executes. \<open>pg_tables\<close> holds the rows
  (table name, table type) of \<open>information_schema.tables\<close> in the schema \<open>public\<close>;
  \<open>pg_enum_labels\<close> the rows (schema, type name, label) of the enum query, in its order.\<close>

record pg_database =
  pg_fault :: "pg_query \<Rightarrow> string option"
  pg_tables :: "(string \<times> string) list"
  pg_columns :: "string \<Rightarrow> column list"
  pg_foreign_keys :: "string \<Rightarrow> foreign_key list"
  pg_primary_keys :: "string \<Rightarrow> string list"
  pg_sequences :: "string list"
  pg_sequence_row :: "string \<Rightarrow> sequence_row option"
  pg_enum_labels :: "(string \<times> string \<times> string) list"
  pg_grants :: "string \<Rightarrow> (string \<times> string) list"
  pg_rows :: "string \<Rightarrow> pyvalue list list"

definition pg_execute :: "pg_database \<Rightarrow> pg_query \<Rightarrow> 'a \<Rightarrow> pyerror + 'a" where
  "pg_execute db q rows = (case pg_fault db q of Some m \<Rightarrow> Inl (Psycopg2Error m) | None \<Rightarrow> Inr rows)"

subsection \<open>Statement builders\<close>

definition create_foreign_key_statement :: "foreign_key list \<Rightarrow> string" where
  "create_foreign_key_statement foreign_keys =
     py_join [nl]
       (map (\<lambda>(constraint_name, table_name, column_name, foreign_table_name, foreign_column_name).
               ''ALTER TABLE ONLY public.'' @ table_name @ '' ''
               @ ''ADD CONSTRAINT '' @ constraint_name @ '' ''
               @ ''FOREIGN KEY ('' @ column_name @ '') REFERENCES public.'' @ foreign_table_name
               @ ''('' @ foreign_column_name @ '') ''
               @ ''ON UPDATE CASCADE ON DELETE RESTRICT;'')
          foreign_keys)"

definition create_permission_statements :: "string \<Rightarrow> (string \<times> string) list \<Rightarrow> string" where
  "create_permission_statements table permissions =
     py_join [nl]
       (map (\<lambda>(grantee, privilege_type).
               ''GRANT '' @ privilege_type @ '' ON TABLE public.'' @ table @ '' TO '' @ grantee @ '';'')
          permissions)"

text \<open>The values of a row, and the rows of a table, encoded in order; the first
  \<open>TypeError\<close> of the encoder ends the statement.\<close>

fun format_values :: "pyvalue list \<Rightarrow> pyerror + string list" where
  "format_values [] = Inr []"
| "format_values (v # vs) =
     bindE (format_value v) (\<lambda>s. bindE (format_values vs) (\<lambda>ss. Inr (s # ss)))"

fun format_rows :: "pyvalue list list \<Rightarrow> pyerror + string list" where
  "format_rows [] = Inr []"
| "format_rows (row # rows) =
     bindE (format_values row) (\<lambda>formatted_values.
       bindE (format_rows rows) (\<lambda>values_list.
         Inr ((''('' @ py_join '', '' formatted_values @ '')'') # values_list)))"

definition create_insert_statement ::
  "string \<Rightarrow> (string \<times> string) list \<Rightarrow> pyvalue list list \<Rightarrow> pyerror + string" where
  "create_insert_statement table columns rows =
     (let col_names = map fst columns in
      bindE (format_rows rows) (\<lambda>values_list.
        let values_str = py_join ('','' @ [nl]) values_list in
        Inr (''INSERT INTO public.'' @ table @ '' ('' @ py_join '', '' col_names @ '') VALUES ''
             @ [nl] @ values_str @ '';'')))"

definition create_type_statement :: "string \<Rightarrow> string list \<Rightarrow> string" where
  "create_type_statement type_name labels =
     (let drop_type_stmt = ''DROP TYPE IF EXISTS public.'' @ type_name @ '' CASCADE;'' @ [nl];
          create_type_stmt = ''CREATE TYPE public.'' @ type_name @ '' AS ENUM ('' @ [nl]
            @ py_join ('','' @ [nl]) (map (\<lambda>label. ''    '' @ [sq] @ label @ [sq]) labels)
            @ [nl] @ '');'' @ [nl]
      in drop_type_stmt @ create_type_stmt)"

subsection \<open>Catalog queries\<close>

definition get_table_definitions :: "pg_database \<Rightarrow> string \<Rightarrow> pyerror + column list" where
  "get_table_definitions db table = pg_execute db (TableDefinitions table) (pg_columns db table)"

definition get_foreign_keys :: "pg_database \<Rightarrow> string \<Rightarrow> pyerror + foreign_key list" where
  "get_foreign_keys db table = pg_execute db (ForeignKeys table) (pg_foreign_keys db table)"

definition get_primary_keys :: "pg_database \<Rightarrow> string \<Rightarrow> pyerror + string list" where
  "get_primary_keys db table = pg_execute db (PrimaryKeys table) (pg_primary_keys db table)"

definition get_sequences :: "pg_database \<Rightarrow> pyerror + string list" where
  "get_sequences db = pg_execute db Sequences (pg_sequences db)"

text \<open>\<open>types[type_name].append(enum_label)\<close> on a \<open>defaultdict(list)\<close>.\<close>

fun dict_append :: "string \<Rightarrow> 'v \<Rightarrow> (string \<times> 'v list) list \<Rightarrow> (string \<times> 'v list) list" where
  "dict_append k v [] = [(k, [v])]"
| "dict_append k v ((k', vs) # d) =
     (if k' = k then (k', vs @ [v]) # d else (k', vs) # dict_append k v d)"

definition get_user_defined_types :: "pg_database \<Rightarrow> pyerror + (string \<times> string list) list" where
  "get_user_defined_types db =
     bindE (pg_execute db UserDefinedTypes (pg_enum_labels db)) (\<lambda>rows.
       Inr (foldl (\<lambda>types (schema, type_name, enum_label). dict_append type_name enum_label types)
              [] rows))"

definition get_table_permissions :: "pg_database \<Rightarrow> string \<Rightarrow> pyerror + (string \<times> string) list" where
  "get_table_permissions db table = pg_execute db (TablePermissions table) (pg_grants db table)"

text \<open>\<open>create_sequence_statement\<close>: unpacking the row raises \<open>TypeError\<close> when
  \<open>fetchone()\<close> gave \<open>None\<close>.\<close>

definition create_sequence_statement :: "pg_database \<Rightarrow> string \<Rightarrow> pyerror + string" where
  "create_sequence_statement db sequence =
     bindE (pg_execute db (SequenceRow sequence) (pg_sequence_row db sequence)) (\<lambda>seq_info.
       case seq_info of
         None \<Rightarrow> Inl TypeError
       | Some r \<Rightarrow>
           Inr (''DROP SEQUENCE IF EXISTS public.'' @ sequence @ '' CASCADE;'' @ [nl]
                @ ''CREATE SEQUENCE public.'' @ sequence @ [nl]
                @ ''    START WITH '' @ str_int (start_value r) @ [nl]
                @ ''    INCREMENT BY '' @ str_int (increment_by r) @ [nl]
                @ (case min_value r of
                     None \<Rightarrow> ''    NO MINVALUE'' @ [nl]
                   | Some v \<Rightarrow> ''    MINVALUE '' @ str_int v @ [nl])
                @ (case max_value r of
                     None \<Rightarrow> ''    NO MAXVALUE'' @ [nl]
                   | Some v \<Rightarrow> ''    MAXVALUE '' @ str_int v @ [nl])
                @ ''    CACHE '' @ str_int (cache_size r) @ '';'' @ [nl]))"

text \<open>One column definition of \<open>create_table_statement\<close>. \<open>if col_default:\<close> holds for a
  default that is neither \<open>None\<close> nor empty.\<close>

definition column_definition :: "column \<Rightarrow> string" where
  "column_definition col =
     (case col of (col_name, data_type0, is_nullable, col_default0) \<Rightarrow>
        let (data_type, col_default) =
              (if data_type0 = ''USER-DEFINED''
                 then (''public.mpaa_rating'', Some ([sq] @ ''G'' @ [sq] @ ''::public.mpaa_rating''))
               else if py_in ''ARRAY'' data_type0 then (''text[]'', col_default0)
               else if data_type0 = ''character'' then (''character(100)'', col_default0)
               else (data_type0, col_default0));
            col_def = [tab] @ col_name @ '' '' @ data_type;
            col_def = (case col_default of
                None \<Rightarrow> col_def
              | Some d \<Rightarrow>
                  if d = [] then col_def
                  else col_def @ '' DEFAULT ''
                    @ (if py_in ''nextval('' d
                       then py_replace (''nextval('' @ [sq]) (''nextval('' @ [sq] @ ''public.'') d
                       else d));
            col_def = (if is_nullable = ''NO'' then col_def @ '' NOT NULL'' else col_def)
        in col_def)"

definition create_table_statement :: "pg_database \<Rightarrow> string \<Rightarrow> column list \<Rightarrow> pyerror + string" where
  "create_table_statement db table columns =
     bindE (get_primary_keys db table) (\<lambda>primary_keys.
       let col_defs = map column_definition columns;
           col_defs = (if primary_keys \<noteq> []
                       then col_defs @ [[tab] @ ''PRIMARY KEY ('' @ py_join '', '' primary_keys @ '')'']
                       else col_defs)
       in Inr (''DROP TABLE IF EXISTS public.'' @ table @ '' CASCADE;'' @ [nl]
               @ ''CREATE TABLE public.'' @ table @ '' ('' @ [nl]
               @ py_join ('','' @ [nl]) col_defs @ [nl] @ '');'' @ [nl]))"

subsection \<open>The backup run\<close>

text \<open>The script is built by appending to \<open>backup_sql\<close>. The model keeps each appended
  piece of text with the statement it holds; the script is their concatenation.\<close>

datatype pg_statement =
    Preamble
  | TypeStatement string
  | SequenceStatement string
  | TableStatement string
  | InsertStatement string
  | ForeignKeyStatement string
  | PermissionStatement string

type_synonym pg_fragment = "pg_statement \<times> string"

definition pg_preamble :: string where
  "pg_preamble = unlines
     [''SET statement_timeout = 0;'',
      ''SET lock_timeout = 0;'',
      ''SET idle_in_transaction_session_timeout = 0;'',
      ''SET client_encoding = '' @ [sq] @ ''UTF8'' @ [sq] @ '';'',
      ''SET standard_conforming_strings = on;'',
      ''SELECT pg_catalog.set_config('' @ [sq] @ ''search_path'' @ [sq] @ '', '' @ [sq, sq] @ '', false);'',
      ''SET check_function_bodies = false;'',
      ''SET xmloption = content;'',
      ''SET client_min_messages = warning;'',
      ''SET row_security = off;'']"

text \<open>The tables of the run: with no filter, the names of the base tables of the
  catalog (the query's \<open>WHERE\<close> clause); with a filter, the list as given. The second
  component is \<open>include_sequences_and_types\<close>.\<close>

definition target_tables :: "pg_database \<Rightarrow> string list option \<Rightarrow> pyerror + (string list \<times> bool)" where
  "target_tables db tables =
     (case tables of
        None \<Rightarrow>
          bindE (pg_execute db ListBaseTables
                   (map fst (filter (\<lambda>(table_name, table_type). table_type = ''BASE TABLE'') (pg_tables db))))
            (\<lambda>all_tables. Inr (all_tables, True))
      | Some ts \<Rightarrow> Inr (ts, False))"

text \<open>The first loop fills \<open>table_definitions\<close>; the foreign keys it reads go to
  \<open>dependency_map\<close>, which nothing reads.\<close>

fun definitions_loop ::
  "pg_database \<Rightarrow> (string \<times> column list) list \<Rightarrow> string list \<Rightarrow> pyerror + (string \<times> column list) list" where
  "definitions_loop db table_definitions [] = Inr table_definitions"
| "definitions_loop db table_definitions (table # rest) =
     bindE (get_table_definitions db table) (\<lambda>columns.
       bindE (get_foreign_keys db table) (\<lambda>foreign_keys.
         definitions_loop db (dict_set table columns table_definitions) rest))"

definition types_loop :: "(string \<times> string list) list \<Rightarrow> pg_fragment list" where
  "types_loop user_defined_types =
     map (\<lambda>(type_name, labels). (TypeStatement type_name, create_type_statement type_name labels @ [nl]))
       user_defined_types"

fun sequences_loop :: "pg_database \<Rightarrow> string list \<Rightarrow> pyerror + pg_fragment list" where
  "sequences_loop db [] = Inr []"
| "sequences_loop db (sequence # rest) =
     bindE (create_sequence_statement db sequence) (\<lambda>stmt.
       bindE (sequences_loop db rest) (\<lambda>frags.
         Inr ((SequenceStatement sequence, stmt @ [nl]) # frags)))"

text \<open>The table loop returns the fragments it appended and \<open>foreign_keys_to_add\<close>.
  \<open>table_definitions[table]\<close> raises \<open>KeyError\<close> on a missing key.\<close>

fun tables_loop ::
  "pg_database \<Rightarrow> (string \<times> column list) list \<Rightarrow> string list
     \<Rightarrow> pyerror + (pg_fragment list \<times> (string \<times> foreign_key list) list)" where
  "tables_loop db table_definitions [] = Inr ([], [])"
| "tables_loop db table_definitions (table # rest) =
     bindE (case map_of table_definitions table of
              None \<Rightarrow> Inl (KeyError table)
            | Some columns \<Rightarrow> Inr columns) (\<lambda>columns.
       bindE (create_table_statement db table columns) (\<lambda>stmt.
         bindE (get_foreign_keys db table) (\<lambda>foreign_keys.
           bindE (tables_loop db table_definitions rest) (\<lambda>(frags, foreign_keys_to_add).
             Inr ((TableStatement table, stmt @ [nl]) # frags,
                  (table, foreign_keys) # foreign_keys_to_add)))))"

fun data_loop :: "pg_database \<Rightarrow> string list \<Rightarrow> pyerror + pg_fragment list" where
  "data_loop db [] = Inr []"
| "data_loop db (table # rest) =
     bindE (pg_execute db (SelectAllFrom table) (pg_rows db table)) (\<lambda>rows.
       bindE (pg_execute db (ColumnNames table)
                (map (\<lambda>(column_name, data_type, is_nullable, column_default). (column_name, data_type))
                   (pg_columns db table))) (\<lambda>columns.
         bindE (if rows \<noteq> []
                then bindE (create_insert_statement table columns rows) (\<lambda>stmt.
                       Inr [(InsertStatement table, stmt @ [nl])])
                else Inr []) (\<lambda>frag.
           bindE (data_loop db rest) (\<lambda>frags. Inr (frag @ frags)))))"

fun foreign_keys_loop :: "(string \<times> foreign_key list) list \<Rightarrow> pg_fragment list" where
  "foreign_keys_loop [] = []"
| "foreign_keys_loop ((table, foreign_keys) # rest) =
     (if foreign_keys \<noteq> []
      then (ForeignKeyStatement table, create_foreign_key_statement foreign_keys @ [nl])
             # foreign_keys_loop rest
      else foreign_keys_loop rest)"

fun permissions_loop :: "pg_database \<Rightarrow> string list \<Rightarrow> pyerror + pg_fragment list" where
  "permissions_loop db [] = Inr []"
| "permissions_loop db (table # rest) =
     bindE (get_table_permissions db table) (\<lambda>permissions.
       bindE (permissions_loop db rest) (\<lambda>frags.
         Inr ((if permissions \<noteq> []
               then [(PermissionStatement table, create_permission_statements table permissions @ [nl])]
               else []) @ frags)))"

text \<open>\<open>PostgresBackup.backup\<close>, with the fragments of \<open>backup_sql\<close> in the order they are
  appended. The progress bar only counts; the two queries that size it are run. The
  method has no exception handler.\<close>

definition postgres_backup_fragments ::
  "pg_database \<Rightarrow> string \<Rightarrow> string list option \<Rightarrow> bool \<Rightarrow> pyerror + pg_fragment list" where
  "postgres_backup_fragments db backup_type tables include_permissions =
     bindE (target_tables db tables) (\<lambda>(all_tables, include_sequences_and_types).
     bindE (if include_sequences_and_types
            then bindE (get_sequences db) (\<lambda>s. bindE (get_user_defined_types db) (\<lambda>u. Inr ()))
            else Inr ()) (\<lambda>total_steps.
     bindE (definitions_loop db [] all_tables) (\<lambda>table_definitions.
     bindE (if include_sequences_and_types
            then bindE (get_sequences db) (\<lambda>s. bindE (get_user_defined_types db) (\<lambda>u. Inr (s, u)))
            else Inr ([], [])) (\<lambda>(sequences, user_defined_types).
     let sorted_tables = all_tables;
         structure = (backup_type = ''structure'' \<or> backup_type = ''structure_data'');
         data = (backup_type = ''data'' \<or> backup_type = ''structure_data'');
         type_frags = (if structure \<and> include_sequences_and_types
                       then types_loop user_defined_types else [])
     in
     bindE (if structure \<and> include_sequences_and_types
            then sequences_loop db sequences else Inr []) (\<lambda>sequence_frags.
     bindE (if structure then tables_loop db table_definitions sorted_tables
            else Inr ([], [])) (\<lambda>(table_frags, foreign_keys_to_add).
     bindE (if data then data_loop db sorted_tables else Inr []) (\<lambda>data_frags.
     let foreign_key_frags = (if structure then foreign_keys_loop foreign_keys_to_add else []) in
     bindE (if include_permissions then permissions_loop db sorted_tables else Inr [])
       (\<lambda>permission_frags.
          Inr ((Preamble, pg_preamble) # type_frags @ sequence_frags @ table_frags @ data_frags
               @ foreign_key_frags @ permission_frags)))))))))"

definition postgres_backup ::
  "pg_database \<Rightarrow> string \<Rightarrow> string list option \<Rightarrow> bool \<Rightarrow> pyerror + string" where
  "postgres_backup db backup_type tables include_permissions =
     bindE (postgres_backup_fragments db backup_type tables include_permissions) (\<lambda>frags.
       Inr (concat (map snd frags)))"

section \<open>The MySQL backup\<close>

datatype mysql_query =
    ListTables "string list option"
  | ShowCreateTable string
  | SelectAll string
  | ShowGrants

text \<open>\<open>my_tables\<close> holds the rows (table name, table type) of
  \<open>information_schema.tables\<close> for the schema of the connection; \<open>my_show_create\<close> the
  second column of \<open>SHOW CREATE TABLE\<close>; \<open>my_description\<close> the column names the cursor
  describes after \<open>SELECT *\<close>; \<open>my_grants\<close> the first column of \<open>SHOW GRANTS\<close>. A query
  the server refuses, such as an \<open>IN ()\<close> with no names, is a fault of \<open>my_fault\<close>.\<close>

record mysql_database =
  my_fault :: "mysql_query \<Rightarrow> string option"
  my_tables :: "(string \<times> string) list"
  my_show_create :: "string \<Rightarrow> string"
  my_description :: "string \<Rightarrow> string list"
  my_rows :: "string \<Rightarrow> pyvalue list list"
  my_grants :: "string list"

definition my_execute :: "mysql_database \<Rightarrow> mysql_query \<Rightarrow> 'a \<Rightarrow> pyerror + 'a" where
  "my_execute db q rows = (case my_fault db q of Some m \<Rightarrow> Inl (MySQLError m) | None \<Rightarrow> Inr rows)"

datatype mysql_statement =
    Header
  | ViewStructure string
  | TableStructure string
  | TableData string
  | Permissions
  | Footer

type_synonym mysql_fragment = "mysql_statement \<times> string"

definition generate_backup_footer :: string where
  "generate_backup_footer = [nl] @ unlines
     [''/*!40101 SET SQL_MODE=@OLD_SQL_MODE */;'',
      ''/*!40014 SET FOREIGN_KEY_CHECKS=@OLD_FOREIGN_KEY_CHECKS */;'',
      ''/*!40014 SET UNIQUE_CHECKS=@OLD_UNIQUE_CHECKS */;'',
      ''/*!40101 SET CHARACTER_SET_CLIENT=@OLD_CHARACTER_SET_CLIENT */;'',
      ''/*!40101 SET CHARACTER_SET_RESULTS=@OLD_CHARACTER_SET_RESULTS */;'',
      ''/*!40101 SET COLLATION_CONNECTION=@OLD_COLLATION_CONNECTION */;'',
      ''/*!40103 SET TIME_ZONE=@OLD_TIME_ZONE */;'',
      ''/*!40111 SET SQL_NOTES=@OLD_SQL_NOTES */;'']"

definition generate_backup_header :: string where
  "generate_backup_header = [nl] @ unlines
     [''/*!40101 SET @OLD_CHARACTER_SET_CLIENT=@@CHARACTER_SET_CLIENT */;'',
      ''/*!40101 SET @OLD_CHARACTER_SET_RESULTS=@@CHARACTER_SET_RESULTS */;'',
      ''/*!40101 SET @OLD_COLLATION_CONNECTION=@@COLLATION_CONNECTION */;'',
      ''/*!50503 SET NAMES utf8mb4 */;'',
      ''/*!40103 SET @OLD_TIME_ZONE=@@TIME_ZONE */;'',
      ''/*!40103 SET TIME_ZONE='' @ [sq] @ ''+00:00'' @ [sq] @ '' */;'',
      ''/*!40014 SET @OLD_UNIQUE_CHECKS=@@UNIQUE_CHECKS, UNIQUE_CHECKS=0 */;'',
      ''/*!40014 SET @OLD_FOREIGN_KEY_CHECKS=@@FOREIGN_KEY_CHECKS, FOREIGN_KEY_CHECKS=0 */;'',
      ''/*!40101 SET @OLD_SQL_MODE=@@SQL_MODE, SQL_MODE='' @ [sq] @ ''NO_AUTO_VALUE_ON_ZERO'' @ [sq] @ '' */;'',
      ''/*!40111 SET @OLD_SQL_NOTES=@@SQL_NOTES, SQL_NOTES=0 */;'' @ [nl]]"

text \<open>The rows the table query returns: all rows of the schema, or those whose name is
  in the list.\<close>

definition mysql_list_tables ::
  "mysql_database \<Rightarrow> string list option \<Rightarrow> pyerror + (string \<times> string) list" where
  "mysql_list_tables db tables =
     (case tables of
        None \<Rightarrow> my_execute db (ListTables None) (my_tables db)
      | Some ts \<Rightarrow>
          my_execute db (ListTables (Some ts))
            (filter (\<lambda>(table_name, table_type). table_name \<in> set ts) (my_tables db)))"

definition structure_fragment :: "string \<Rightarrow> string \<Rightarrow> string \<Rightarrow> mysql_fragment" where
  "structure_fragment table table_type create_statement =
     (if table_type = ''VIEW''
      then (ViewStructure table,
            ''-- Structure for view `'' @ table @ ''`'' @ [nl] @ ''DROP VIEW IF EXISTS `'' @ table
            @ ''`;'' @ [nl] @ create_statement @ '';'' @ [nl, nl])
      else (TableStructure table,
            ''-- Table structure for table `'' @ table @ ''`'' @ [nl] @ ''DROP TABLE IF EXISTS `''
            @ table @ ''`;'' @ [nl] @ create_statement @ '';'' @ [nl, nl]))"

definition data_fragment :: "string \<Rightarrow> string list \<Rightarrow> pyvalue list list \<Rightarrow> mysql_fragment" where
  "data_fragment table column_names rows =
     (let insert_statement_prefix =
            ''INSERT INTO `'' @ table @ ''` (`'' @ py_join ''`, `'' column_names @ ''`) VALUES '';
          values_list =
            map (\<lambda>row. ''('' @ py_join '', '' (map mysql_format_value row) @ '')'') rows;
          insert_statement = insert_statement_prefix @ py_join ('','' @ [nl]) values_list @ '';'' @ [nl];
          lock_tables = ''LOCK TABLES `'' @ table @ ''` WRITE;'' @ [nl];
          unlock_tables = ''UNLOCK TABLES;'' @ [nl]
      in (TableData table,
          ''-- Data for table `'' @ table @ ''`'' @ [nl] @ lock_tables @ insert_statement
          @ unlock_tables @ [nl, nl]))"

text \<open>The loop over the tables, with \<open>header_written\<close> and \<open>backup_data\<close> as its state.\<close>

fun mysql_tables_loop ::
  "mysql_database \<Rightarrow> string \<Rightarrow> bool \<Rightarrow> (string \<times> mysql_fragment list) list \<Rightarrow> (string \<times> string) list
     \<Rightarrow> pyerror + (bool \<times> (string \<times> mysql_fragment list) list)" where
  "mysql_tables_loop db backup_type header_written backup_data [] = Inr (header_written, backup_data)"
| "mysql_tables_loop db backup_type header_written backup_data ((table, table_type) # rest) =
     (let table_backup_data =
            (if \<not> header_written then [(Header, generate_backup_header)] else [])
      in
      bindE (if backup_type = ''structure'' \<or> backup_type = ''structure_data''
             then bindE (my_execute db (ShowCreateTable table) (my_show_create db table))
                    (\<lambda>create_statement.
                       Inr (table_backup_data @ [structure_fragment table table_type create_statement]))
             else Inr table_backup_data) (\<lambda>table_backup_data.
      bindE (if table_type = ''BASE TABLE'' \<and> (backup_type = ''data'' \<or> backup_type = ''structure_data'')
             then bindE (my_execute db (SelectAll table) (my_rows db table)) (\<lambda>rows.
                    if rows \<noteq> []
                    then Inr (table_backup_data @ [data_fragment table (my_description db table) rows])
                    else Inr table_backup_data)
             else Inr table_backup_data) (\<lambda>table_backup_data.
      mysql_tables_loop db backup_type True (dict_set table table_backup_data backup_data) rest)))"

text \<open>\<open>MySQLBackup.backup\<close>: the body of the \<open>try\<close>, then the handler, which turns a
  \<open>pymysql.MySQLError\<close> into a \<open>BackupError\<close> raised from it. Closing the cursor and the
  connection at the end of the body is left out, here and in the Postgres backup.\<close>

definition mysql_backup_body ::
  "mysql_database \<Rightarrow> string \<Rightarrow> string list option \<Rightarrow> bool
     \<Rightarrow> pyerror + (string \<times> mysql_fragment list) list" where
  "mysql_backup_body db backup_type tables include_permissions =
     bindE (mysql_list_tables db tables) (\<lambda>all_tables.
     bindE (mysql_tables_loop db backup_type False [] all_tables) (\<lambda>(header_written, backup_data).
     bindE (if include_permissions
            then bindE (my_execute db ShowGrants (my_grants db)) (\<lambda>grants.
                   let grant_statements = py_join [nl] grants in
                   Inr (dict_set ''permissions''
                          [(Permissions, ''-- Permissions'' @ [nl] @ grant_statements @ [nl, nl])]
                          backup_data))
            else Inr backup_data) (\<lambda>backup_data.
     Inr (if header_written
          then dict_set ''footer'' [(Footer, generate_backup_footer)] backup_data
          else backup_data))))"

definition mysql_backup ::
  "mysql_database \<Rightarrow> string \<Rightarrow> string list option \<Rightarrow> bool
     \<Rightarrow> pyerror + (string \<times> mysql_fragment list) list" where
  "mysql_backup db backup_type tables include_permissions =
     (case mysql_backup_body db backup_type tables include_permissions of
        Inl (MySQLError m) \<Rightarrow>
          Inl (BackupError (''Error during backup: '' @ str_error (MySQLError m)) (MySQLError m))
      | r \<Rightarrow> r)"

section \<open>The backup manager\<close>

text \<open>\<open>BackupManager.backup\<close> calls the backup of the instance chosen at construction
  and wraps a \<open>BackupManagerError\<close>, the base class of the domain errors; any other
  exception passes through.\<close>

datatype backup_instance = MySQLBackup mysql_database | PostgresBackup pg_database

datatype artifact = MySQLArtifact "(string \<times> mysql_fragment list) list" | PostgresArtifact string

fun is_BackupManagerError :: "pyerror \<Rightarrow> bool" where
  "is_BackupManagerError (DatabaseConnectionError h u c) = True"
| "is_BackupManagerError (BackupError m c) = True"
| "is_BackupManagerError (RestoreError m c) = True"
| "is_BackupManagerError e = False"

definition manager_backup ::
  "backup_instance \<Rightarrow> string \<Rightarrow> string list option \<Rightarrow> bool \<Rightarrow> pyerror + artifact" where
  "manager_backup backup_instance backup_type tables include_permissions =
     (case (case backup_instance of
              MySQLBackup db \<Rightarrow>
                bindE (mysql_backup db backup_type tables include_permissions) (\<lambda>d. Inr (MySQLArtifact d))
            | PostgresBackup db \<Rightarrow>
                bindE (postgres_backup db backup_type tables include_permissions) (\<lambda>s. Inr (PostgresArtifact s)))
      of
        Inl e \<Rightarrow>
          if is_BackupManagerError e
          then Inl (BackupError (''Failed to perform backup: '' @ str_error e) e)
          else Inl e
      | Inr a \<Rightarrow> Inr a)"

section \<open>Reading an artifact\<close>





text \<open>The order of the statements in a Postgres script over the tables \<open>all_tables\<close>
  that holds the enum types \<open>types\<close> and the sequences \<open>sequences\<close>: the preamble, the
  types, the sequences, a \<open>CREATE TABLE\<close> for each table, an \<open>INSERT\<close> for each table with
  a row, the foreign keys of each table that has one, and the grants.\<close>

definition script_statements ::
  "pg_database \<Rightarrow> string \<Rightarrow> bool \<Rightarrow> string list \<Rightarrow> string list \<Rightarrow> string list \<Rightarrow> pg_statement list" where
  "script_statements db backup_type include_permissions all_tables types sequences =
     Preamble # map TypeStatement types @ map SequenceStatement sequences
     @ map TableStatement
         (if backup_type = ''structure'' \<or> backup_type = ''structure_data'' then all_tables else [])
     @ map InsertStatement
         (if backup_type = ''data'' \<or> backup_type = ''structure_data''
          then filter (\<lambda>t. pg_rows db t \<noteq> []) all_tables else [])
     @ map ForeignKeyStatement
         (if backup_type = ''structure'' \<or> backup_type = ''structure_data''
          then filter (\<lambda>t. pg_foreign_keys db t \<noteq> []) all_tables else [])
     @ map PermissionStatement
         (if include_permissions then filter (\<lambda>t. pg_grants db t \<noteq> []) all_tables else [])"

text \<open>The statements the MySQL loop files under a table: the header when it is the
  first table, the structure when asked for, the data of a base table with a row.\<close>

definition table_statements ::
  "mysql_database \<Rightarrow> string \<Rightarrow> bool \<Rightarrow> string \<Rightarrow> string \<Rightarrow> mysql_statement list" where
  "table_statements db backup_type header_written table table_type =
     (if \<not> header_written then [Header] else [])
     @ (if backup_type = ''structure'' \<or> backup_type = ''structure_data''
        then [if table_type = ''VIEW'' then ViewStructure table else TableStructure table] else [])
     @ (if table_type = ''BASE TABLE'' \<and> (backup_type = ''data'' \<or> backup_type = ''structure_data'')
           \<and> my_rows db table \<noteq> []
        then [TableData table] else [])"

text \<open>The fragments the MySQL loop files under a table, with their text.\<close>

definition table_fragments ::
  "mysql_database \<Rightarrow> string \<Rightarrow> bool \<Rightarrow> string \<Rightarrow> string \<Rightarrow> mysql_fragment list" where
  "table_fragments db backup_type header_written table table_type =
     (if \<not> header_written then [(Header, generate_backup_header)] else [])
     @ (if backup_type = ''structure'' \<or> backup_type = ''structure_data''
        then [structure_fragment table table_type (my_show_create db table)] else [])
     @ (if table_type = ''BASE TABLE'' \<and> (backup_type = ''data'' \<or> backup_type = ''structure_data'')
           \<and> my_rows db table \<noteq> []
        then [data_fragment table (my_description db table) (my_rows db table)] else [])"

section \<open>Example databases\<close>

text \<open>A Postgres database with the tables \<open>users\<close> (two rows) and \<open>orders\<close> (no row, a
  foreign key to \<open>users\<close>), the view \<open>report\<close>, a sequence and an enum type.\<close>

definition shop :: pg_database where
  "shop = \<lparr>
     pg_fault = (\<lambda>q. None),
     pg_tables = [(''users'', ''BASE TABLE''), (''orders'', ''BASE TABLE''), (''report'', ''VIEW'')],
     pg_columns = (\<lambda>t.
       if t = ''users'' then [(''id'', ''integer'', ''NO'', None), (''name'', ''character varying'', ''YES'', None)]
       else if t = ''orders'' then [(''id'', ''integer'', ''NO'', None), (''user_id'', ''integer'', ''YES'', None)]
       else if t = ''report'' then [(''n'', ''bigint'', ''YES'', None)]
       else []),
     pg_foreign_keys = (\<lambda>t.
       if t = ''orders'' then [(''orders_user_fk'', ''orders'', ''user_id'', ''users'', ''id'')] else []),
     pg_primary_keys = (\<lambda>t. if t = ''users'' \<or> t = ''orders'' then [''id''] else []),
     pg_sequences = [''users_id_seq''],
     pg_sequence_row = (\<lambda>s.
       if s = ''users_id_seq''
       then Some \<lparr>start_value = 1, increment_by = 1, min_value = None, max_value = None, cache_size = 1\<rparr>
       else None),
     pg_enum_labels = [(''public'', ''mood'', ''sad''), (''public'', ''mood'', ''happy'')],
     pg_grants = (\<lambda>t. []),
     pg_rows = (\<lambda>t.
       if t = ''users'' then [[PInt 1, PStr ''Ann''], [PInt 2, PNone]]
       else if t = ''report'' then [[PInt 2]]
       else [])
   \<rparr>"

text \<open>The same database behind a connection that is lost: every query raises.\<close>

definition shop_offline :: pg_database where
  "shop_offline = shop\<lparr>pg_fault := (\<lambda>q. Some ''server closed the connection unexpectedly'')\<rparr>"

text \<open>A MySQL schema with the same tables, and one whose only table is named
  \<open>footer\<close> and has no row.\<close>

definition mysql_shop :: mysql_database where
  "mysql_shop = \<lparr>
     my_fault = (\<lambda>q. None),
     my_tables = [(''users'', ''BASE TABLE''), (''orders'', ''BASE TABLE''), (''report'', ''VIEW'')],
     my_show_create = (\<lambda>t. ''CREATE TABLE `'' @ t @ ''` (`id` int NOT NULL)''),
     my_description = (\<lambda>t. if t = ''users'' then [''id'', ''name''] else [''id'']),
     my_rows = (\<lambda>t.
       if t = ''users'' then [[PInt 1, PStr ''Ann''], [PInt 2, PNone]]
       else if t = ''report'' then [[PInt 2]]
       else []),
     my_grants = []
   \<rparr>"

definition mysql_footer :: mysql_database where
  "mysql_footer = \<lparr>
     my_fault = (\<lambda>q. None),
     my_tables = [(''footer'', ''BASE TABLE'')],
     my_show_create = (\<lambda>t. ''CREATE TABLE `footer` (`id` int NOT NULL)''),
     my_description = (\<lambda>t. [''id'']),
     my_rows = (\<lambda>t. []),
     my_grants = []
   \<rparr>"

text \<open>A Postgres database whose only table is named \<open>footer\<close> and has no row.\<close>

definition pg_footer :: pg_database where
  "pg_footer = \<lparr>
     pg_fault = (\<lambda>q. None),
     pg_tables = [(''footer'', ''BASE TABLE'')],
     pg_columns = (\<lambda>t. [(''id'', ''integer'', ''NO'', None)]),
     pg_foreign_keys = (\<lambda>t. []),
     pg_primary_keys = (\<lambda>t. []),
     pg_sequences = [],
     pg_sequence_row = (\<lambda>s. None),
     pg_enum_labels = [],
     pg_grants = (\<lambda>t. []),
     pg_rows = (\<lambda>t. [])
   \<rparr>"

text \<open>A server that refuses every statement.\<close>

definition refusing_server :: server where
  "refusing_server done command = Some ''syntax error''"

section \<open>Properties of the value encoders\<close>

lemma collapse_quotes_other:
  "c \<noteq> sq \<Longrightarrow> collapse_quotes (c # xs) = map_option ((#) c) (collapse_quotes xs)"
  by (cases xs) simp_all

lemma collapse_quotes_replace: "collapse_quotes (py_replace [sq] [sq, sq] s) = Some s"
  by (induction s) (auto simp: collapse_quotes_other)

lemma parse_literal_quoted: "parse_literal (sq # py_replace [sq] [sq, sq] s @ [sq]) = Some s"
  by (simp add: parse_literal_def collapse_quotes_replace)

lemma replace_quote_doubles:
  "py_replace [sq] [sq, sq] s = concat (map (\<lambda>c. if c = sq then [sq, sq] else [c]) s)"
  by (induction s) auto

lemma mysql_format_value_str:
  "mysql_format_value (PStr s) = sq # py_replace [sq] [sq, sq] s @ [sq]"
  by (simp add: mysql_format_value_def isinstance_def issubclass_def)

lemma format_value_str: "format_value (PStr s) = Inr (sq # py_replace [sq] [sq, sq] s @ [sq])"
  by (simp add: format_value_def isinstance_def issubclass_def)

text \<open>
  Claim C1. For every string \<open>s\<close>, the encoder of either family gives the literal that
  opens and closes with a single quote and holds \<open>s\<close> with each single quote doubled;
  reading the literal back (outer quotes stripped, doubled quotes collapsed) gives \<open>s\<close>.
  The string O'Brien encodes to 'O''Brien'.
\<close>

theorem string_literal_round_trip:
  "mysql_format_value (PStr s) = sq # concat (map (\<lambda>c. if c = sq then [sq, sq] else [c]) s) @ [sq]
   \<and> format_value (PStr s) = Inr (mysql_format_value (PStr s))
   \<and> parse_literal (mysql_format_value (PStr s)) = Some s
   \<and> map_sum id parse_literal (format_value (PStr s)) = Inr (Some s)
   \<and> mysql_format_value (PStr (''O'' @ [sq] @ ''Brien'')) = [sq] @ ''O'' @ [sq, sq] @ ''Brien'' @ [sq]
   \<and> format_value (PStr (''O'' @ [sq] @ ''Brien'')) = Inr ([sq] @ ''O'' @ [sq, sq] @ ''Brien'' @ [sq])"
proof -
  have m: "mysql_format_value (PStr s) = sq # py_replace [sq] [sq, sq] s @ [sq]"
    by (rule mysql_format_value_str)
  have p: "format_value (PStr s) = Inr (sq # py_replace [sq] [sq, sq] s @ [sq])"
    by (rule format_value_str)
  have e1: "mysql_format_value (PStr (''O'' @ [sq] @ ''Brien'')) = [sq] @ ''O'' @ [sq, sq] @ ''Brien'' @ [sq]"
    by (simp add: mysql_format_value_str)
  have e2: "format_value (PStr (''O'' @ [sq] @ ''Brien'')) = Inr ([sq] @ ''O'' @ [sq, sq] @ ''Brien'' @ [sq])"
    by (simp add: format_value_str)
  show ?thesis
    using e1 e2 by (simp add: m p parse_literal_quoted replace_quote_doubles [symmetric])
qed

theorem string_literal_round_trip_witness:
  "parse_literal (mysql_format_value (PStr (''it'' @ [sq] @ ''s''))) = Some (''it'' @ [sq] @ ''s'')
   \<and> map_sum id parse_literal (format_value (PStr (''it'' @ [sq] @ ''s''))) =
       Inr (Some (''it'' @ [sq] @ ''s''))"
  using string_literal_round_trip [of "''it'' @ [sq] @ ''s''"] by blast

text \<open>
  Claim C2, as the code has it. \<open>None\<close> encodes to \<open>NULL\<close> in both families. The booleans
  encode to \<open>TRUE\<close> and \<open>FALSE\<close> in the MySQL family and to \<open>True\<close> and \<open>False\<close> in the
  Postgres family. In the MySQL family a byte sequence encodes to \<open>0x\<close> and its
  hexadecimal digits, so \<open>b'\xAB\xCD'\<close> encodes to \<open>0xabcd\<close>; the Postgres family has no
  hexadecimal form: a memoryview encodes to the placeholder \<open>'<memory>'\<close>.
\<close>

theorem encoder_tokens:
  "mysql_format_value PNone = ''NULL''
   \<and> format_value PNone = Inr ''NULL''
   \<and> mysql_format_value (PBool b) = (if b then ''TRUE'' else ''FALSE'')
   \<and> format_value (PBool b) = Inr (if b then ''True'' else ''False'')
   \<and> mysql_format_value (PBytes bs) = ''0x'' @ bytes_hex bs
   \<and> mysql_format_value (PBytes [0xAB, 0xCD]) = ''0xabcd''
   \<and> format_value (PMemoryview bs r) = Inr ([sq] @ ''<memory>'' @ [sq])"
proof -
  have "mysql_format_value (PBytes bs) = ''0x'' @ bytes_hex bs" for bs
    by (simp add: mysql_format_value_def isinstance_def issubclass_def)
  moreover have "bytes_hex [0xAB, 0xCD] = ''abcd''"
    by (simp add: bytes_hex_def hex2_def digit_def)
  moreover have "mysql_format_value (PBool b) = (if b then ''TRUE'' else ''FALSE'')"
    by (simp add: mysql_format_value_def isinstance_def issubclass_def)
  moreover have "format_value (PBool b) = Inr (if b then ''True'' else ''False'')"
    by (simp add: format_value_def isinstance_def issubclass_def)
  moreover have "format_value (PMemoryview bs r) = Inr ([sq] @ ''<memory>'' @ [sq])"
    by (simp add: format_value_def isinstance_def issubclass_def)
  moreover have "mysql_format_value PNone = ''NULL''" "format_value PNone = Inr ''NULL''"
    by (simp_all add: mysql_format_value_def format_value_def)
  ultimately show ?thesis by simp
qed

theorem encoder_tokens_witness:
  "mysql_format_value (PBool True) = ''TRUE''
   \<and> format_value (PBool False) = Inr ''False''
   \<and> mysql_format_value (PBytes [0x00, 0xFF]) = ''0x00ff''"
  using encoder_tokens [of True "[0x00, 0xFF]"] encoder_tokens [of False]
  by (simp add: bytes_hex_def hex2_def digit_def)

text \<open>The Postgres encoder gives the byte sequence \<open>b'\xAB\xCD'\<close> the text of its
  \<open>repr\<close>, not \<open>0xabcd\<close>.\<close>

theorem postgres_bytes_counterexample:
  "format_value (PBytes [0xAB, 0xCD]) \<noteq> Inr ''0xabcd''"
  by code_simp

text \<open>
  Claim C8, at a timestamp in the Postgres family. The test \<open>isinstance(value, date)\<close>
  holds for a \<open>datetime\<close> too, so the encoder takes the date-only branch: the value
  2024-01-02 03:04:05 encodes to \<open>'2024-01-02'\<close>, where the MySQL encoder gives
  \<open>'2024-01-02 03:04:05'\<close>.
\<close>

theorem postgres_timestamp_loses_time:
  "format_value (PDatetime \<lparr>year = 2024, month = 1, day = 2, hour = 3, minute = 4, second = 5\<rparr>)
     = Inr ([sq] @ ''2024-01-02'' @ [sq])
   \<and> mysql_format_value (PDatetime \<lparr>year = 2024, month = 1, day = 2, hour = 3, minute = 4, second = 5\<rparr>)
     = [sq] @ ''2024-01-02 03:04:05'' @ [sq]"
  by (simp add: format_value_def mysql_format_value_def isinstance_def issubclass_def
      strftime_def zfill_def str_nat.simps digit_def)

section \<open>Properties of the script splitter\<close>

lemma py_split_nonempty: "py_split c s \<noteq> []"
  by (induction s) (auto split: list.splits)

lemma py_split_snoc:
  "py_split c (s @ [x]) =
     (if x = c then py_split c s @ [[]]
      else butlast (py_split c s) @ [last (py_split c s) @ [x]])"
  by (induction s) (auto split: list.splits simp: py_split_nonempty)

lemma last_py_split: "last (py_split CHR '';'' s) = final_fragment s"
  by (induction s rule: rev_induct) (auto simp: py_split_snoc final_fragment_def py_split_nonempty)

lemma mysql_restore_loop_log:
  "\<exists>ys. fst (mysql_restore_loop srv done cmds) = done @ ys \<and> subseq ys cmds"
proof (induction cmds arbitrary: "done")
  case Nil
  then show ?case by simp
next
  case (Cons c cs)
  show ?case
  proof (cases "py_strip c \<noteq> [] \<and> srv done c = None")
    case True
    from Cons.IH [of "done @ [c]"] obtain ys where
      "fst (mysql_restore_loop srv (done @ [c]) cs) = (done @ [c]) @ ys" "subseq ys cs"
      by blast
    with True show ?thesis by (intro exI [of _ "c # ys"]) simp
  next
    case False
    from Cons.IH [of "done"] obtain ys where
      "fst (mysql_restore_loop srv done cs) = done @ ys" "subseq ys cs"
      by blast
    with False show ?thesis
      by (cases "py_strip c = []") (auto split: option.splits intro: exI [of _ "[]"])
  qed
qed

lemma postgres_restore_loop_log:
  "\<exists>ys. fst (postgres_restore_loop srv done cmds) = done @ ys \<and> prefix ys cmds"
proof (induction cmds arbitrary: "done")
  case Nil
  then show ?case by simp
next
  case (Cons c cs)
  show ?case
  proof (cases "srv done c")
    case None
    from Cons.IH [of "done @ [c]"] obtain ys where
      "fst (postgres_restore_loop srv (done @ [c]) cs) = (done @ [c]) @ ys" "prefix ys cs"
      by blast
    with None show ?thesis by (intro exI [of _ "c # ys"]) simp
  next
    case (Some m)
    then show ?thesis by simp
  qed
qed

lemma mysql_restore_log: "subseq (fst (mysql_restore srv cmds)) cmds"
  using mysql_restore_loop_log [of srv "[]" cmds]
  by (auto simp: mysql_restore_def split: prod.splits option.splits pyerror.splits)

lemma postgres_restore_log: "prefix (fst (postgres_restore srv cmds)) cmds"
  using postgres_restore_loop_log [of srv "[]" cmds]
  by (auto simp: postgres_restore_def)

text \<open>
  Claim C7. On a text that ends with the terminator, the splitter of either family
  gives the fragments between the terminators and drops the one empty fragment after
  the last terminator: \<open>A;B;C;\<close> gives \<open>[A, B, C]\<close> and \<open>A;\<close> gives \<open>[A]\<close>.
\<close>

theorem splitter_drops_trailing_empty_fragment:
  "py_split CHR '';'' (s @ '';'') = py_split CHR '';'' s @ [[]]
   \<and> mysql_read_sql_commands_from_file (s @ '';'') = py_split CHR '';'' s
   \<and> postgres_read_sql_commands_from_file (s @ '';'') = py_split CHR '';'' s
   \<and> mysql_read_sql_commands_from_file ''A;B;C;'' = [''A'', ''B'', ''C'']
   \<and> postgres_read_sql_commands_from_file ''A;B;C;'' = [''A'', ''B'', ''C'']
   \<and> mysql_read_sql_commands_from_file ''A;'' = [''A'']
   \<and> postgres_read_sql_commands_from_file ''A;'' = [''A'']"
  by (simp add: mysql_read_sql_commands_from_file_def postgres_read_sql_commands_from_file_def
      py_split_snoc)

theorem splitter_drops_trailing_empty_fragment_witness:
  "mysql_read_sql_commands_from_file ''DROP TABLE t;CREATE TABLE t (a int);'' =
     [''DROP TABLE t'', ''CREATE TABLE t (a int)'']"
proof -
  have "py_split CHR '';'' ''DROP TABLE t;CREATE TABLE t (a int)'' =
     [''DROP TABLE t'', ''CREATE TABLE t (a int)'']"
    by simp
  then show ?thesis
    using splitter_drops_trailing_empty_fragment [of "''DROP TABLE t;CREATE TABLE t (a int)''"]
    by simp
qed

text \<open>
  Claim C10. On a text that does not end with the terminator, the splitter of either
  family drops the last fragment all the same: the fragments are the commands it
  returns followed by the text after the last terminator, which is not empty unless
  the whole text is. The statements a restore then executes are taken, in order, from
  the commands returned, so the final statement is not among them.
\<close>

theorem splitter_discards_final_statement:
  assumes "\<not> ends_with_terminator text"
  shows "py_split CHR '';'' text = mysql_read_sql_commands_from_file text @ [final_fragment text]
   \<and> py_split CHR '';'' text = postgres_read_sql_commands_from_file text @ [final_fragment text]
   \<and> (final_fragment text = []) = (text = [])
   \<and> subseq (fst (mysql_restore srv (mysql_read_sql_commands_from_file text)))
        (butlast (py_split CHR '';'' text))
   \<and> prefix (fst (postgres_restore srv (postgres_read_sql_commands_from_file text)))
        (butlast (py_split CHR '';'' text))"
proof -
  have split: "py_split CHR '';'' text = butlast (py_split CHR '';'' text) @ [final_fragment text]"
    using append_butlast_last_id [OF py_split_nonempty, of "CHR '';''" "text"]
    by (simp add: last_py_split)
  have frag: "(final_fragment text = []) = (text = [])"
  proof (cases "text" rule: rev_cases)
    case Nil
    then show ?thesis by (simp add: final_fragment_def)
  next
    case (snoc s x)
    with assms have "x \<noteq> CHR '';''" by (simp add: ends_with_terminator_def)
    with snoc show ?thesis by (simp add: final_fragment_def)
  qed
  have m: "subseq (fst (mysql_restore srv (mysql_read_sql_commands_from_file text)))
        (butlast (py_split CHR '';'' text))"
    using mysql_restore_log [of srv "mysql_read_sql_commands_from_file text"]
    by (simp add: mysql_read_sql_commands_from_file_def)
  have p: "prefix (fst (postgres_restore srv (postgres_read_sql_commands_from_file text)))
        (butlast (py_split CHR '';'' text))"
    using postgres_restore_log [of srv "postgres_read_sql_commands_from_file text"]
    by (simp add: postgres_read_sql_commands_from_file_def)
  from split frag m p show ?thesis
    by (simp add: mysql_read_sql_commands_from_file_def postgres_read_sql_commands_from_file_def)
qed

theorem splitter_discards_final_statement_witness:
  "\<not> ends_with_terminator ''A;B''
   \<and> mysql_read_sql_commands_from_file ''A;B'' = [''A'']
   \<and> postgres_read_sql_commands_from_file ''A;B'' = [''A'']
   \<and> final_fragment ''A;B'' = ''B''
   \<and> fst (postgres_restore (\<lambda>done c. None) (postgres_read_sql_commands_from_file ''A;B'')) = [''A'']
   \<and> fst (mysql_restore (\<lambda>done c. None) (mysql_read_sql_commands_from_file ''A;B'')) = [''A'']"
proof -
  have h: "\<not> ends_with_terminator ''A;B''"
    by (simp add: ends_with_terminator_def)
  have "py_strip ''A'' = ''A''"
    by (simp add: py_strip_def isspace_def)
  then show ?thesis
    using h splitter_discards_final_statement [OF h, of "\<lambda>done c. None"]
    by (simp add: mysql_read_sql_commands_from_file_def postgres_read_sql_commands_from_file_def
        final_fragment_def mysql_restore_def postgres_restore_def)
qed

section \<open>Properties of the Postgres backup\<close>

lemma bindE_simps [simp]: "bindE (Inr x) f = f x" "bindE (Inl e) f = Inl e"
  by (simp_all add: bindE_def)

lemma bindE_eq_Inr: "(bindE m f = Inr y) = (\<exists>x. m = Inr x \<and> f x = Inr y)"
  by (cases m) simp_all

lemma pg_execute_eq_Inr: "(pg_execute db q r = Inr x) = (pg_fault db q = None \<and> x = r)"
  by (auto simp: pg_execute_def split: option.splits)

lemma tables_loop_statements:
  "tables_loop db defs ts = Inr (fr, fka) \<Longrightarrow>
     map fst fr = map TableStatement ts \<and> fka = map (\<lambda>t. (t, pg_foreign_keys db t)) ts"
proof (induction ts arbitrary: fr fka)
  case Nil
  then show ?case by simp
next
  case (Cons t ts)
  from Cons.prems obtain cols stmt fks fr' fka' where
    "get_foreign_keys db t = Inr fks" and rest: "tables_loop db defs ts = Inr (fr', fka')"
    and fr: "fr = (TableStatement t, stmt @ [nl]) # fr'" and fka: "fka = (t, fks) # fka'"
    by (auto simp: bindE_eq_Inr)
  then have "fks = pg_foreign_keys db t"
    by (simp add: get_foreign_keys_def pg_execute_eq_Inr)
  with Cons.IH [OF rest] fr fka show ?case by simp
qed

lemma data_loop_statements:
  "data_loop db ts = Inr fr \<Longrightarrow>
     map fst fr = map InsertStatement (filter (\<lambda>t. pg_rows db t \<noteq> []) ts)"
proof (induction ts arbitrary: fr)
  case Nil
  then show ?case by simp
next
  case (Cons t ts)
  from Cons.prems obtain rows frag fr' where
    rows: "rows = pg_rows db t"
    and frag: "(if rows \<noteq> [] then bindE (create_insert_statement t
         (map (\<lambda>(column_name, data_type, is_nullable, column_default). (column_name, data_type))
                   (pg_columns db t)) rows) (\<lambda>stmt.
                       Inr [(InsertStatement t, stmt @ [nl])]) else Inr []) = Inr frag"
    and rest: "data_loop db ts = Inr fr'" and fr: "fr = frag @ fr'"
    by (auto simp: bindE_eq_Inr pg_execute_eq_Inr)
  from frag have "map fst frag = (if rows \<noteq> [] then [InsertStatement t] else [])"
    by (auto simp: bindE_eq_Inr split: if_splits)
  with Cons.IH [OF rest] fr rows show ?case by simp
qed

lemma foreign_keys_loop_statements:
  "map fst (foreign_keys_loop fka) =
     map ForeignKeyStatement (map fst (filter (\<lambda>(t, fks). fks \<noteq> []) fka))"
  by (induction fka rule: foreign_keys_loop.induct) simp_all

lemma filter_foreign_keys_to_add:
  "map fst (filter (\<lambda>(t, fks). fks \<noteq> []) (map (\<lambda>t. (t, f t)) ts)) = filter (\<lambda>t. f t \<noteq> []) ts"
  by (induction ts) simp_all

lemma permissions_loop_statements:
  "permissions_loop db ts = Inr fr \<Longrightarrow>
     map fst fr = map PermissionStatement (filter (\<lambda>t. pg_grants db t \<noteq> []) ts)"
proof (induction ts arbitrary: fr)
  case Nil
  then show ?case by simp
next
  case (Cons t ts)
  from Cons.prems obtain fr' where
    rest: "permissions_loop db ts = Inr fr'"
    and fr: "fr = (if pg_grants db t \<noteq> []
               then [(PermissionStatement t, create_permission_statements t (pg_grants db t) @ [nl])]
               else []) @ fr'"
    by (auto simp: bindE_eq_Inr get_table_permissions_def pg_execute_eq_Inr)
  with Cons.IH [OF rest] show ?case by simp
qed

lemma sequences_loop_statements:
  "sequences_loop db seqs = Inr fr \<Longrightarrow> map fst fr = map SequenceStatement seqs"
  by (induction seqs arbitrary: fr) (auto simp: bindE_eq_Inr)

lemma types_loop_statements:
  "map fst (types_loop udt) = map TypeStatement (map fst udt)"
  by (simp add: types_loop_def case_prod_unfold comp_def)

text \<open>The statements of a script that was produced are in that order; with a table
  filter it holds no type and no sequence.\<close>

lemma postgres_backup_statements:
  assumes "postgres_backup_fragments db bt tables perms = Inr frags"
  shows "\<exists>all_tables incl tys seqs.
    target_tables db tables = Inr (all_tables, incl)
    \<and> map fst frags = script_statements db bt perms all_tables tys seqs
    \<and> (\<not> incl \<longrightarrow> tys = [] \<and> seqs = [])"
proof -
  let ?struct = "bt = ''structure'' \<or> bt = ''structure_data''"
  let ?dat = "bt = ''data'' \<or> bt = ''structure_data''"
  from assms obtain all_tables incl defs sequences udt sequence_frags table_frags fka data_frags
      permission_frags where
    tt: "target_tables db tables = Inr (all_tables, incl)"
    and su: "(if incl
            then bindE (get_sequences db) (\<lambda>s. bindE (get_user_defined_types db) (\<lambda>u. Inr (s, u)))
            else Inr ([], [])) = Inr (sequences, udt)"
    and sl: "(if ?struct \<and> incl then sequences_loop db sequences else Inr []) = Inr sequence_frags"
    and tl: "(if ?struct then tables_loop db defs all_tables else Inr ([], [])) = Inr (table_frags, fka)"
    and dl: "(if ?dat then data_loop db all_tables else Inr []) = Inr data_frags"
    and pl: "(if perms then permissions_loop db all_tables else Inr []) = Inr permission_frags"
    and fr: "frags = (Preamble, pg_preamble) # (if ?struct \<and> incl then types_loop udt else [])
               @ sequence_frags @ table_frags @ data_frags
               @ (if ?struct then foreign_keys_loop fka else []) @ permission_frags"
    unfolding postgres_backup_fragments_def Let_def
    by (fastforce simp: bindE_eq_Inr)
  let ?tys = "if ?struct \<and> incl then map fst udt else []"
  let ?seqs = "if ?struct \<and> incl then sequences else []"
  have 1: "map fst (if ?struct \<and> incl then types_loop udt else []) = map TypeStatement ?tys"
    by (simp add: types_loop_statements)
  have 2: "map fst sequence_frags = map SequenceStatement ?seqs"
    using sl by (auto simp: sequences_loop_statements split: if_splits)
  have 3: "map fst table_frags = map TableStatement (if ?struct then all_tables else [])"
    and fka_eq: "?struct \<Longrightarrow> fka = map (\<lambda>t. (t, pg_foreign_keys db t)) all_tables"
    using tl by (auto dest: tables_loop_statements split: if_splits)
  have 4: "map fst data_frags =
      map InsertStatement (if ?dat then filter (\<lambda>t. pg_rows db t \<noteq> []) all_tables else [])"
    using dl by (auto dest: data_loop_statements split: if_splits)
  have 5: "map fst (if ?struct then foreign_keys_loop fka else []) =
      map ForeignKeyStatement
        (if ?struct then filter (\<lambda>t. pg_foreign_keys db t \<noteq> []) all_tables else [])"
    using fka_eq by (simp add: foreign_keys_loop_statements filter_foreign_keys_to_add)
  have 6: "map fst permission_frags =
      map PermissionStatement (if perms then filter (\<lambda>t. pg_grants db t \<noteq> []) all_tables else [])"
    using pl by (auto dest: permissions_loop_statements split: if_splits)
  have main: "map fst frags = script_statements db bt perms all_tables ?tys ?seqs"
    unfolding fr script_statements_def using 1 2 3 4 5 6 by (simp only: map_append list.map fst_conv)
  have no: "\<not> incl \<longrightarrow> ?tys = [] \<and> ?seqs = []" by simp
  from tt main no show ?thesis by blast
qed

lemma target_tables_Some: "target_tables db (Some ts) = Inr (ts, False)"
  by (simp add: target_tables_def)





lemma postgres_zero_rows:
  assumes run: "postgres_backup_fragments db bt tables perms = Inr frags"
    and tt: "target_tables db tables = Inr (all_tables, incl)"
    and t: "t \<in> set all_tables"
    and struct: "bt = ''structure'' \<or> bt = ''structure_data''"
    and rows: "pg_rows db t = []"
  shows "TableStatement t \<in> set (map fst frags) \<and> InsertStatement t \<notin> set (map fst frags)"
proof -
  obtain all_tables' incl' tys seqs where
    tt': "target_tables db tables = Inr (all_tables', incl')"
    and st: "map fst frags = script_statements db bt perms all_tables' tys seqs"
    using postgres_backup_statements [OF run] by blast
  from tt tt' have "all_tables' = all_tables" by simp
  with st t struct rows show ?thesis
    by (auto simp: script_statements_def)
qed

section \<open>Properties of the MySQL backup\<close>

lemma my_execute_eq_Inr: "(my_execute db q r = Inr x) = (my_fault db q = None \<and> x = r)"
  by (auto simp: my_execute_def split: option.splits)

lemma map_of_dict_set: "map_of (dict_set k v d) = (map_of d)(k \<mapsto> v)"
  by (induction d) (auto simp: fun_upd_twist)

lemma in_dict_set: "(k', v') \<in> set (dict_set k v d) \<Longrightarrow> (k', v') = (k, v) \<or> (k', v') \<in> set d"
  by (induction d) (auto split: if_splits)

lemma fst_structure_fragment:
  "fst (structure_fragment t ty s) = (if ty = ''VIEW'' then ViewStructure t else TableStructure t)"
  by (simp add: structure_fragment_def)

lemma fst_data_fragment: "fst (data_fragment t cols rows) = TableData t"
  by (simp add: data_fragment_def Let_def)

lemma mysql_tables_loop_Cons:
  assumes "mysql_tables_loop db bt hw d ((t, ty) # rest) = Inr r"
  shows "\<exists>tbd. mysql_tables_loop db bt True (dict_set t tbd d) rest = Inr r
           \<and> map fst tbd = table_statements db bt hw t ty"
proof -
  from assms obtain tbd1 tbd2 where
    1: "(if bt = ''structure'' \<or> bt = ''structure_data''
             then bindE (my_execute db (ShowCreateTable t) (my_show_create db t))
                    (\<lambda>create_statement.
                       Inr ((if \<not> hw then [(Header, generate_backup_header)] else [])
                            @ [structure_fragment t ty create_statement]))
             else Inr (if \<not> hw then [(Header, generate_backup_header)] else [])) = Inr tbd1"
    and 2: "(if ty = ''BASE TABLE'' \<and> (bt = ''data'' \<or> bt = ''structure_data'')
             then bindE (my_execute db (SelectAll t) (my_rows db t)) (\<lambda>rows.
                    if rows \<noteq> []
                    then Inr (tbd1 @ [data_fragment t (my_description db t) rows])
                    else Inr tbd1)
             else Inr tbd1) = Inr tbd2"
    and 3: "mysql_tables_loop db bt True (dict_set t tbd2 d) rest = Inr r"
    by (auto simp: bindE_eq_Inr Let_def)
  from 1 have a: "map fst tbd1 = (if \<not> hw then [Header] else [])
     @ (if bt = ''structure'' \<or> bt = ''structure_data''
        then [if ty = ''VIEW'' then ViewStructure t else TableStructure t] else [])"
    by (auto simp: bindE_eq_Inr my_execute_eq_Inr fst_structure_fragment split: if_splits)
  from 2 have b: "map fst tbd2 = map fst tbd1
     @ (if ty = ''BASE TABLE'' \<and> (bt = ''data'' \<or> bt = ''structure_data'') \<and> my_rows db t \<noteq> []
        then [TableData t] else [])"
    by (auto simp: bindE_eq_Inr my_execute_eq_Inr fst_data_fragment split: if_splits)
  from a b 3 show ?thesis unfolding table_statements_def by (intro exI [of _ tbd2]) simp
qed

lemma mysql_tables_loop_other_keys:
  "mysql_tables_loop db bt hw d ts = Inr (hw', d') \<Longrightarrow> k \<notin> fst ` set ts \<Longrightarrow> map_of d' k = map_of d k"
proof (induction ts arbitrary: hw d)
  case Nil
  then show ?case by simp
next
  case (Cons p ts)
  obtain t ty where p: "p = (t, ty)" by (cases p)
  from Cons.prems(1) p obtain tbd where
    "mysql_tables_loop db bt True (dict_set t tbd d) ts = Inr (hw', d')"
    using mysql_tables_loop_Cons by blast
  from Cons.IH [OF this] Cons.prems(2) p show ?case
    by (simp add: map_of_dict_set)
qed

lemma mysql_tables_loop_entry:
  "mysql_tables_loop db bt hw d ts = Inr (hw', d') \<Longrightarrow> distinct (map fst ts) \<Longrightarrow> (t, ty) \<in> set ts \<Longrightarrow>
     \<exists>frs h. map_of d' t = Some frs \<and> map fst frs = table_statements db bt h t ty"
proof (induction ts arbitrary: hw d)
  case Nil
  then show ?case by simp
next
  case (Cons p ts)
  obtain t' ty' where p: "p = (t', ty')" by (cases p)
  from Cons.prems(1) p obtain tbd where
    rest: "mysql_tables_loop db bt True (dict_set t' tbd d) ts = Inr (hw', d')"
    and tbd: "map fst tbd = table_statements db bt hw t' ty'"
    using mysql_tables_loop_Cons by blast
  show ?case
  proof (cases "(t, ty) = p")
    case True
    with p Cons.prems(2) have "t \<notin> fst ` set ts" by auto
    from mysql_tables_loop_other_keys [OF rest this] True p
    have "map_of d' t = Some tbd" by (simp add: map_of_dict_set)
    with tbd True p show ?thesis by auto
  next
    case False
    with Cons.prems have "distinct (map fst ts)" "(t, ty) \<in> set ts" by auto
    from Cons.IH [OF rest this] show ?thesis .
  qed
qed

lemma mysql_tables_loop_data:
  "mysql_tables_loop db bt hw d ts = Inr (hw', d') \<Longrightarrow> (k, frs) \<in> set d' \<Longrightarrow>
   TableData t \<in> set (map fst frs) \<Longrightarrow>
     (\<exists>k frs. (k, frs) \<in> set d \<and> TableData t \<in> set (map fst frs))
     \<or> ((t, ''BASE TABLE'') \<in> set ts \<and> my_rows db t \<noteq> [])"
proof (induction ts arbitrary: hw d)
  case Nil
  then show ?case by auto
next
  case (Cons p ts)
  obtain t' ty' where p: "p = (t', ty')" by (cases p)
  from Cons.prems(1) p obtain tbd where
    rest: "mysql_tables_loop db bt True (dict_set t' tbd d) ts = Inr (hw', d')"
    and tbd: "map fst tbd = table_statements db bt hw t' ty'"
    using mysql_tables_loop_Cons by blast
  from Cons.IH [OF rest Cons.prems(2,3)] show ?case
  proof
    assume "\<exists>k frs. (k, frs) \<in> set (dict_set t' tbd d) \<and> TableData t \<in> set (map fst frs)"
    then obtain k' frs' where in_d: "(k', frs') \<in> set (dict_set t' tbd d)"
      and data: "TableData t \<in> set (map fst frs')" by blast
    from in_dict_set [OF in_d] show ?thesis
    proof
      assume "(k', frs') = (t', tbd)"
      with data have "TableData t \<in> set (map fst tbd)" by simp
      then have "TableData t \<in> set (table_statements db bt hw t' ty')" by (simp only: tbd)
      then have "t = t' \<and> ty' = ''BASE TABLE'' \<and> my_rows db t \<noteq> []"
        by (auto simp: table_statements_def split: if_splits)
      with p show ?thesis by auto
    next
      assume "(k', frs') \<in> set d"
      with data show ?thesis by blast
    qed
  next
    assume "(t, ''BASE TABLE'') \<in> set ts \<and> my_rows db t \<noteq> []"
    then show ?thesis by simp
  qed
qed

lemma mysql_tables_loop_header: "mysql_tables_loop db bt hw d ts = Inr (hw', d') \<Longrightarrow> hw' = (hw \<or> ts \<noteq> [])"
proof (induction ts arbitrary: hw d)
  case Nil
  then show ?case by simp
next
  case (Cons p ts)
  obtain t' ty' where p: "p = (t', ty')" by (cases p)
  from Cons.prems(1) p obtain tbd where
    rest: "mysql_tables_loop db bt True (dict_set t' tbd d) ts = Inr (hw', d')"
    using mysql_tables_loop_Cons by blast
  from Cons.IH [OF rest] show ?case by simp
qed

lemma mysql_backup_Inr:
  "mysql_backup db bt tables perms = Inr bd \<Longrightarrow> mysql_backup_body db bt tables perms = Inr bd"
  by (auto simp: mysql_backup_def split: sum.splits pyerror.splits)

lemma mysql_list_tables_distinct:
  "mysql_list_tables db tables = Inr listed \<Longrightarrow> distinct (map fst (my_tables db)) \<Longrightarrow> distinct (map fst listed)"
  by (auto simp: mysql_list_tables_def my_execute_eq_Inr distinct_map_filter split: option.splits)

lemma mysql_backup_body_parts:
  assumes "mysql_backup_body db bt tables perms = Inr bd"
  shows "\<exists>listed hw d1 d2. mysql_list_tables db tables = Inr listed
     \<and> mysql_tables_loop db bt False [] listed = Inr (hw, d1)
     \<and> d2 = (if perms then dict_set ''permissions''
                          [(Permissions, ''-- Permissions'' @ [nl] @ py_join [nl] (my_grants db) @ [nl, nl])] d1
              else d1)
     \<and> bd = (if hw then dict_set ''footer'' [(Footer, generate_backup_footer)] d2 else d2)"
proof -
  from assms obtain listed hw d1 d2 where
    "mysql_list_tables db tables = Inr listed"
    "mysql_tables_loop db bt False [] listed = Inr (hw, d1)"
    "(if perms
            then bindE (my_execute db ShowGrants (my_grants db)) (\<lambda>grants.
                   let grant_statements = py_join [nl] grants in
                   Inr (dict_set ''permissions''
                          [(Permissions, ''-- Permissions'' @ [nl] @ grant_statements @ [nl, nl])]
                          d1))
            else Inr d1) = Inr d2"
    "bd = (if hw then dict_set ''footer'' [(Footer, generate_backup_footer)] d2 else d2)"
    unfolding mysql_backup_body_def by (fastforce simp: bindE_eq_Inr)
  moreover from this(3) have "d2 = (if perms then dict_set ''permissions''
                          [(Permissions, ''-- Permissions'' @ [nl] @ py_join [nl] (my_grants db) @ [nl, nl])] d1
              else d1)"
    by (auto simp: bindE_eq_Inr my_execute_eq_Inr Let_def split: if_splits)
  ultimately show ?thesis by blast
qed

section \<open>Where driver faults are wrapped, and which tables get data\<close>

text \<open>The MySQL backup and the MySQL restore turn every exception they raise into a
  domain error with the driver fault as its cause. The MySQL backup, and the Postgres
  backup with no table list, give data statements to base tables only.\<close>

lemma bindE_eq_Inl: "(bindE m f = Inl e) = (m = Inl e \<or> (\<exists>x. m = Inr x \<and> f x = Inl e))"
  by (cases m) simp_all

lemma my_execute_Inl: "my_execute db q r = Inl e \<Longrightarrow> \<exists>m. e = MySQLError m"
  by (auto simp: my_execute_def split: option.splits)

lemma mysql_tables_loop_Cons_Inl:
  assumes "mysql_tables_loop db bt hw d ((t, ty) # rest) = Inl e"
  shows "(\<exists>m. e = MySQLError m)
    \<or> (\<exists>tbd. mysql_tables_loop db bt True (dict_set t tbd d) rest = Inl e)"
proof -
  let ?tbd0 = "if \<not> hw then [(Header, generate_backup_header)] else []"
  let ?s1 = "if bt = ''structure'' \<or> bt = ''structure_data''
             then bindE (my_execute db (ShowCreateTable t) (my_show_create db t))
                    (\<lambda>create_statement.
                       Inr (?tbd0 @ [structure_fragment t ty create_statement]))
             else Inr ?tbd0"
  show ?thesis
  proof (cases ?s1)
    case (Inl e1)
    with assms have "e = e1" by (simp add: Let_def)
    moreover from Inl have "\<exists>m. e1 = MySQLError m"
      by (auto simp: bindE_eq_Inl dest: my_execute_Inl split: if_splits)
    ultimately show ?thesis by blast
  next
    case (Inr tbd1)
    let ?s2 = "if ty = ''BASE TABLE'' \<and> (bt = ''data'' \<or> bt = ''structure_data'')
             then bindE (my_execute db (SelectAll t) (my_rows db t)) (\<lambda>rows.
                    if rows \<noteq> []
                    then Inr (tbd1 @ [data_fragment t (my_description db t) rows])
                    else Inr tbd1)
             else Inr tbd1"
    show ?thesis
    proof (cases ?s2)
      case (Inl e2)
      with assms Inr have "e = e2" by (simp add: Let_def)
      moreover from Inl have "\<exists>m. e2 = MySQLError m"
        by (auto simp: bindE_eq_Inl dest: my_execute_Inl split: if_splits)
      ultimately show ?thesis by blast
    next
      case s2: (Inr tbd2)
      with assms Inr have "mysql_tables_loop db bt True (dict_set t tbd2 d) rest = Inl e"
        by (simp add: Let_def)
      then show ?thesis by blast
    qed
  qed
qed

lemma mysql_tables_loop_Inl:
  "mysql_tables_loop db bt hw d ts = Inl e \<Longrightarrow> \<exists>m. e = MySQLError m"
proof (induction ts arbitrary: hw d)
  case Nil
  then show ?case by simp
next
  case (Cons p ts)
  obtain t ty where p: "p = (t, ty)" by (cases p)
  from Cons.prems p mysql_tables_loop_Cons_Inl [of db bt hw d t ty ts e]
  show ?case using Cons.IH by blast
qed

lemma mysql_backup_body_Inl:
  "mysql_backup_body db bt tables perms = Inl e \<Longrightarrow> \<exists>m. e = MySQLError m"
  unfolding mysql_backup_body_def mysql_list_tables_def
  by (auto simp: bindE_eq_Inl Let_def dest: my_execute_Inl mysql_tables_loop_Inl
      split: if_splits option.splits)

lemma mysql_backup_wraps_driver_faults:
  "mysql_backup db bt tables perms = Inl e \<Longrightarrow>
     \<exists>m. e = BackupError (''Error during backup: '' @ m) (MySQLError m)"
proof -
  assume a: "mysql_backup db bt tables perms = Inl e"
  then obtain e' where b: "mysql_backup_body db bt tables perms = Inl e'"
    by (auto simp: mysql_backup_def split: sum.splits)
  from mysql_backup_body_Inl [OF b] obtain m where "e' = MySQLError m" by blast
  with a b show ?thesis by (auto simp: mysql_backup_def)
qed

lemma mysql_restore_loop_error:
  "snd (mysql_restore_loop srv done cmds) = Some e \<Longrightarrow> \<exists>m. e = MySQLError m"
  by (induction cmds arbitrary: "done") (auto split: if_splits option.splits)

lemma mysql_restore_wraps_driver_faults:
  "snd (mysql_restore srv cmds) = Some e \<Longrightarrow>
     \<exists>m. e = RestoreError (''An error occurred while restoring the database: '' @ m) (MySQLError m)"
proof -
  assume a: "snd (mysql_restore srv cmds) = Some e"
  obtain l r where lr: "mysql_restore_loop srv [] cmds = (l, r)" by (cases "mysql_restore_loop srv [] cmds")
  with a obtain e' where r: "r = Some e'"
    by (cases r) (auto simp: mysql_restore_def)
  with lr mysql_restore_loop_error [of srv "[]" cmds e'] obtain m where "e' = MySQLError m" by auto
  with a lr r show ?thesis by (auto simp: mysql_restore_def)
qed

lemma mysql_data_only_for_base_tables:
  assumes run: "mysql_backup db bt tables perms = Inr bd"
    and listed: "mysql_list_tables db tables = Inr listed"
    and frs: "(k, frs) \<in> set bd" "TableData t \<in> set (map fst frs)"
  shows "(t, ''BASE TABLE'') \<in> set listed"
proof -
  from mysql_backup_body_parts [OF mysql_backup_Inr [OF run]] listed obtain hw d1 d2 where
    loop: "mysql_tables_loop db bt False [] listed = Inr (hw, d1)"
    and d2: "d2 = (if perms then dict_set ''permissions''
                          [(Permissions, ''-- Permissions'' @ [nl] @ py_join [nl] (my_grants db) @ [nl, nl])] d1
              else d1)"
    and bd: "bd = (if hw then dict_set ''footer'' [(Footer, generate_backup_footer)] d2 else d2)"
    by auto
  from frs(1) have "(k, frs) \<in> set d2 \<or> frs = [(Footer, generate_backup_footer)]"
    unfolding bd by (auto dest: in_dict_set split: if_splits)
  with frs(2) have "(k, frs) \<in> set d2" by auto
  then have "(k, frs) \<in> set d1 \<or> map fst frs = [Permissions]"
    unfolding d2 by (auto dest: in_dict_set split: if_splits)
  with frs(2) have "(k, frs) \<in> set d1" by auto
  from mysql_tables_loop_data [OF loop this frs(2)] show ?thesis by simp
qed

lemma postgres_unfiltered_data_only_for_base_tables:
  assumes run: "postgres_backup_fragments db bt None perms = Inr frags"
    and ins: "InsertStatement t \<in> set (map fst frags)"
  shows "(t, ''BASE TABLE'') \<in> set (pg_tables db)"
proof -
  obtain all_tables incl tys seqs where
    tt: "target_tables db None = Inr (all_tables, incl)"
    and st: "map fst frags = script_statements db bt perms all_tables tys seqs"
    using postgres_backup_statements [OF run] by blast
  from tt have "all_tables = map fst (filter (\<lambda>(table_name, table_type). table_type = ''BASE TABLE'') (pg_tables db))"
    by (auto simp: target_tables_def bindE_eq_Inr pg_execute_eq_Inr)
  moreover from ins st have "t \<in> set all_tables"
    by (auto simp: script_statements_def split: if_splits)
  ultimately show ?thesis by auto
qed

section \<open>A table with no row\<close>

text \<open>In a run that asks for the structure, a table of the run that has no row gets
  its structure statement, with the text the builder gives it, and no \<open>INSERT\<close>: in
  the Postgres script for every table, and in the MySQL artifact under the table's own
  key when no later assignment takes that key. No hypothesis on the name is needed for
  the absence of the \<open>INSERT\<close>.\<close>

lemma definitions_loop_map_of:
  "definitions_loop db d0 ts = Inr defs \<Longrightarrow>
     map_of defs k = (if k \<in> set ts then Some (pg_columns db k) else map_of d0 k)"
proof (induction ts arbitrary: d0)
  case Nil
  then show ?case by simp
next
  case (Cons t ts)
  from Cons.prems have rest: "definitions_loop db (dict_set t (pg_columns db t) d0) ts = Inr defs"
    by (auto simp: bindE_eq_Inr get_table_definitions_def get_foreign_keys_def pg_execute_eq_Inr)
  from Cons.IH [OF rest] show ?case by (simp add: map_of_dict_set)
qed

lemma create_table_statement_text:
  "create_table_statement db t columns = Inr stmt \<Longrightarrow>
     stmt = ''DROP TABLE IF EXISTS public.'' @ t @ '' CASCADE;'' @ [nl]
       @ ''CREATE TABLE public.'' @ t @ '' ('' @ [nl]
       @ py_join ('','' @ [nl])
           (map column_definition columns
            @ (if pg_primary_keys db t \<noteq> []
               then [[tab] @ ''PRIMARY KEY ('' @ py_join '', '' (pg_primary_keys db t) @ '')'']
               else []))
       @ [nl] @ '');'' @ [nl]"
  by (auto simp: create_table_statement_def bindE_eq_Inr get_primary_keys_def pg_execute_eq_Inr Let_def)

lemma tables_loop_fragments:
  "tables_loop db defs ts = Inr (fr, fka) \<Longrightarrow> t \<in> set ts \<Longrightarrow>
     \<exists>columns stmt. map_of defs t = Some columns \<and> create_table_statement db t columns = Inr stmt
        \<and> (TableStatement t, stmt @ [nl]) \<in> set fr"
proof (induction ts arbitrary: fr fka)
  case Nil
  then show ?case by simp
next
  case (Cons t' ts)
  from Cons.prems(1) obtain cols stmt fks fr' fka' where
    cols: "(case map_of defs t' of None \<Rightarrow> Inl (KeyError t') | Some columns \<Rightarrow> Inr columns) = Inr cols"
    and stmt: "create_table_statement db t' cols = Inr stmt"
    and rest: "tables_loop db defs ts = Inr (fr', fka')"
    and fr: "fr = (TableStatement t', stmt @ [nl]) # fr'"
    by (auto simp: bindE_eq_Inr)
  show ?case
  proof (cases "t = t'")
    case True
    from cols have "map_of defs t' = Some cols" by (cases "map_of defs t'") simp_all
    with True stmt fr show ?thesis by auto
  next
    case False
    with Cons.prems(2) have "t \<in> set ts" by simp
    from Cons.IH [OF rest this] fr show ?thesis by auto
  qed
qed

lemma postgres_backup_table_fragments:
  assumes "postgres_backup_fragments db bt tables perms = Inr frags"
    and "bt = ''structure'' \<or> bt = ''structure_data''"
  shows "\<exists>all_tables incl defs table_frags fka.
    target_tables db tables = Inr (all_tables, incl)
    \<and> definitions_loop db [] all_tables = Inr defs
    \<and> tables_loop db defs all_tables = Inr (table_frags, fka)
    \<and> set table_frags \<subseteq> set frags"
proof -
  let ?struct = "bt = ''structure'' \<or> bt = ''structure_data''"
  let ?dat = "bt = ''data'' \<or> bt = ''structure_data''"
  from assms(1) obtain all_tables incl defs sequences udt sequence_frags table_frags fka data_frags
      permission_frags where
    tt: "target_tables db tables = Inr (all_tables, incl)"
    and dl: "definitions_loop db [] all_tables = Inr defs"
    and tl: "(if ?struct then tables_loop db defs all_tables else Inr ([], [])) = Inr (table_frags, fka)"
    and fr: "frags = (Preamble, pg_preamble) # (if ?struct \<and> incl then types_loop udt else [])
               @ sequence_frags @ table_frags @ data_frags
               @ (if ?struct then foreign_keys_loop fka else []) @ permission_frags"
    unfolding postgres_backup_fragments_def Let_def
    by (fastforce simp: bindE_eq_Inr)
  from tl assms(2) have "tables_loop db defs all_tables = Inr (table_frags, fka)" by simp
  moreover from fr have "set table_frags \<subseteq> set frags" by auto
  ultimately show ?thesis using tt dl by blast
qed

lemma postgres_zero_rows_structure:
  assumes run: "postgres_backup_fragments db bt tables perms = Inr frags"
    and tt: "target_tables db tables = Inr (all_tables, incl)"
    and t: "t \<in> set all_tables"
    and struct: "bt = ''structure'' \<or> bt = ''structure_data''"
    and rows: "pg_rows db t = []"
  shows "(TableStatement t,
           ''DROP TABLE IF EXISTS public.'' @ t @ '' CASCADE;'' @ [nl]
           @ ''CREATE TABLE public.'' @ t @ '' ('' @ [nl]
           @ py_join ('','' @ [nl])
               (map column_definition (pg_columns db t)
                @ (if pg_primary_keys db t \<noteq> []
                   then [[tab] @ ''PRIMARY KEY ('' @ py_join '', '' (pg_primary_keys db t) @ '')'']
                   else []))
           @ [nl] @ '');'' @ [nl] @ [nl]) \<in> set frags
    \<and> InsertStatement t \<notin> set (map fst frags)"
proof -
  obtain all_tables' incl' defs table_frags fka where
    tt': "target_tables db tables = Inr (all_tables', incl')"
    and dl: "definitions_loop db [] all_tables' = Inr defs"
    and tl: "tables_loop db defs all_tables' = Inr (table_frags, fka)"
    and sub: "set table_frags \<subseteq> set frags"
    using postgres_backup_table_fragments [OF run struct] by blast
  from tt tt' have eq: "all_tables' = all_tables" by simp
  with t tl obtain columns stmt where
    c: "map_of defs t = Some columns"
    and s: "create_table_statement db t columns = Inr stmt"
    and m: "(TableStatement t, stmt @ [nl]) \<in> set table_frags"
    using tables_loop_fragments by blast
  from definitions_loop_map_of [OF dl, of t] t eq c have "columns = pg_columns db t" by simp
  with s have "create_table_statement db t (pg_columns db t) = Inr stmt" by simp
  from create_table_statement_text [OF this] m sub
  have 1: "(TableStatement t,
           ''DROP TABLE IF EXISTS public.'' @ t @ '' CASCADE;'' @ [nl]
           @ ''CREATE TABLE public.'' @ t @ '' ('' @ [nl]
           @ py_join ('','' @ [nl])
               (map column_definition (pg_columns db t)
                @ (if pg_primary_keys db t \<noteq> []
                   then [[tab] @ ''PRIMARY KEY ('' @ py_join '', '' (pg_primary_keys db t) @ '')'']
                   else []))
           @ [nl] @ '');'' @ [nl] @ [nl]) \<in> set frags"
    by auto
  from postgres_zero_rows [OF run tt t struct rows]
  have 2: "InsertStatement t \<notin> set (map fst frags)" by simp
  from 1 2 show ?thesis by (rule conjI)
qed

lemma mysql_tables_loop_Cons_fragments:
  assumes "mysql_tables_loop db bt hw d ((t, ty) # rest) = Inr r"
  shows "mysql_tables_loop db bt True (dict_set t (table_fragments db bt hw t ty) d) rest = Inr r"
proof -
  from assms obtain tbd1 tbd2 where
    1: "(if bt = ''structure'' \<or> bt = ''structure_data''
             then bindE (my_execute db (ShowCreateTable t) (my_show_create db t))
                    (\<lambda>create_statement.
                       Inr ((if \<not> hw then [(Header, generate_backup_header)] else [])
                            @ [structure_fragment t ty create_statement]))
             else Inr (if \<not> hw then [(Header, generate_backup_header)] else [])) = Inr tbd1"
    and 2: "(if ty = ''BASE TABLE'' \<and> (bt = ''data'' \<or> bt = ''structure_data'')
             then bindE (my_execute db (SelectAll t) (my_rows db t)) (\<lambda>rows.
                    if rows \<noteq> []
                    then Inr (tbd1 @ [data_fragment t (my_description db t) rows])
                    else Inr tbd1)
             else Inr tbd1) = Inr tbd2"
    and 3: "mysql_tables_loop db bt True (dict_set t tbd2 d) rest = Inr r"
    by (auto simp: bindE_eq_Inr Let_def)
  from 1 have a: "tbd1 = (if \<not> hw then [(Header, generate_backup_header)] else [])
     @ (if bt = ''structure'' \<or> bt = ''structure_data''
        then [structure_fragment t ty (my_show_create db t)] else [])"
    by (auto simp: bindE_eq_Inr my_execute_eq_Inr split: if_splits)
  from 2 have b: "tbd2 = tbd1
     @ (if ty = ''BASE TABLE'' \<and> (bt = ''data'' \<or> bt = ''structure_data'') \<and> my_rows db t \<noteq> []
        then [data_fragment t (my_description db t) (my_rows db t)] else [])"
    by (auto simp: bindE_eq_Inr my_execute_eq_Inr split: if_splits)
  from a b have "tbd2 = table_fragments db bt hw t ty"
    unfolding table_fragments_def by simp
  with 3 show ?thesis by simp
qed

lemma mysql_tables_loop_entry_fragments:
  "mysql_tables_loop db bt hw d ts = Inr (hw', d') \<Longrightarrow> distinct (map fst ts) \<Longrightarrow> (t, ty) \<in> set ts \<Longrightarrow>
     \<exists>h. map_of d' t = Some (table_fragments db bt h t ty)"
proof (induction ts arbitrary: hw d)
  case Nil
  then show ?case by simp
next
  case (Cons p ts)
  obtain t' ty' where p: "p = (t', ty')" by (cases p)
  from Cons.prems(1) p have
    rest: "mysql_tables_loop db bt True (dict_set t' (table_fragments db bt hw t' ty') d) ts = Inr (hw', d')"
    using mysql_tables_loop_Cons_fragments by blast
  show ?case
  proof (cases "(t, ty) = p")
    case True
    with p Cons.prems(2) have "t \<notin> fst ` set ts" by auto
    from mysql_tables_loop_other_keys [OF rest this] True p
    have "map_of d' t = Some (table_fragments db bt hw t ty)" by (simp add: map_of_dict_set)
    then show ?thesis by blast
  next
    case False
    with Cons.prems have "distinct (map fst ts)" "(t, ty) \<in> set ts" by auto
    from Cons.IH [OF rest this] show ?thesis .
  qed
qed

lemma mysql_zero_rows_no_insert:
  assumes run: "mysql_backup db bt tables perms = Inr bd"
    and rows: "my_rows db t = []"
    and frs: "(k, frs) \<in> set bd"
  shows "TableData t \<notin> set (map fst frs)"
proof
  assume data: "TableData t \<in> set (map fst frs)"
  from mysql_backup_body_parts [OF mysql_backup_Inr [OF run]] obtain listed hw d1 d2 where
    loop: "mysql_tables_loop db bt False [] listed = Inr (hw, d1)"
    and d2: "d2 = (if perms then dict_set ''permissions''
                          [(Permissions, ''-- Permissions'' @ [nl] @ py_join [nl] (my_grants db) @ [nl, nl])] d1
              else d1)"
    and bd: "bd = (if hw then dict_set ''footer'' [(Footer, generate_backup_footer)] d2 else d2)"
    by blast
  from frs have "(k, frs) \<in> set d2 \<or> frs = [(Footer, generate_backup_footer)]"
    unfolding bd by (auto dest: in_dict_set split: if_splits)
  with data have "(k, frs) \<in> set d2" by auto
  then have "(k, frs) \<in> set d1 \<or> map fst frs = [Permissions]"
    unfolding d2 by (auto dest: in_dict_set split: if_splits)
  with data have "(k, frs) \<in> set d1" by auto
  from mysql_tables_loop_data [OF loop this data] rows show False by simp
qed

lemma mysql_zero_rows_structure:
  assumes run: "mysql_backup db bt tables perms = Inr bd"
    and listed: "mysql_list_tables db tables = Inr listed" "(t, ty) \<in> set listed"
    and dist: "distinct (map fst (my_tables db))"
    and struct: "bt = ''structure'' \<or> bt = ''structure_data''"
    and name: "t \<noteq> ''footer''" "\<not> (t = ''permissions'' \<and> perms)"
  shows "\<exists>frs. map_of bd t = Some frs
     \<and> (if ty = ''VIEW''
         then (ViewStructure t,
               ''-- Structure for view `'' @ t @ ''`'' @ [nl] @ ''DROP VIEW IF EXISTS `'' @ t
               @ ''`;'' @ [nl] @ my_show_create db t @ '';'' @ [nl, nl])
         else (TableStructure t,
               ''-- Table structure for table `'' @ t @ ''`'' @ [nl] @ ''DROP TABLE IF EXISTS `''
               @ t @ ''`;'' @ [nl] @ my_show_create db t @ '';'' @ [nl, nl])) \<in> set frs"
proof -
  from mysql_backup_body_parts [OF mysql_backup_Inr [OF run]] listed(1) obtain hw d1 d2 where
    loop: "mysql_tables_loop db bt False [] listed = Inr (hw, d1)"
    and d2: "d2 = (if perms then dict_set ''permissions''
                          [(Permissions, ''-- Permissions'' @ [nl] @ py_join [nl] (my_grants db) @ [nl, nl])] d1
              else d1)"
    and bd: "bd = (if hw then dict_set ''footer'' [(Footer, generate_backup_footer)] d2 else d2)"
    by auto
  from mysql_tables_loop_entry_fragments
    [OF loop mysql_list_tables_distinct [OF listed(1) dist] listed(2)]
  obtain h where frs: "map_of d1 t = Some (table_fragments db bt h t ty)" by blast
  from name have "map_of d2 t = map_of d1 t"
    unfolding d2 by (auto simp: map_of_dict_set)
  with name have "map_of bd t = map_of d1 t"
    unfolding bd by (auto simp: map_of_dict_set)
  with frs have m: "map_of bd t = Some (table_fragments db bt h t ty)" by simp
  from struct have "structure_fragment t ty (my_show_create db t) \<in> set (table_fragments db bt h t ty)"
    by (auto simp: table_fragments_def)
  then have "(if ty = ''VIEW''
         then (ViewStructure t,
               ''-- Structure for view `'' @ t @ ''`'' @ [nl] @ ''DROP VIEW IF EXISTS `'' @ t
               @ ''`;'' @ [nl] @ my_show_create db t @ '';'' @ [nl, nl])
         else (TableStructure t,
               ''-- Table structure for table `'' @ t @ ''`'' @ [nl] @ ''DROP TABLE IF EXISTS `''
               @ t @ ''`;'' @ [nl] @ my_show_create db t @ '';'' @ [nl, nl]))
       \<in> set (table_fragments db bt h t ty)"
    by (simp add: structure_fragment_def)
  with m show ?thesis by blast
qed

text \<open>
  Claim C3, in the MySQL family on a table named \<open>footer\<close>. The loop files the header
  and the structure of the table under the key \<open>footer\<close>, and the assignment of the
  footer after the loop replaces them: the artifact of a structure backup holds the
  footer alone, with or without a table list. The table has no row and its structure
  is not in the artifact. The Postgres backup of a table of that name keeps the
  structure.
\<close>

theorem mysql_footer_table_loses_structure:
  "(''footer'', ''BASE TABLE'') \<in> set (my_tables mysql_footer)
   \<and> my_rows mysql_footer ''footer'' = []
   \<and> mysql_backup mysql_footer ''structure'' None False
       = Inr [(''footer'', [(Footer, generate_backup_footer)])]
   \<and> mysql_backup mysql_footer ''structure'' (Some [''footer'']) False
       = Inr [(''footer'', [(Footer, generate_backup_footer)])]
   \<and> postgres_backup pg_footer ''structure'' None False
       = Inr (pg_preamble
              @ ''DROP TABLE IF EXISTS public.footer CASCADE;'' @ [nl]
              @ ''CREATE TABLE public.footer ('' @ [nl]
              @ [tab] @ ''id integer NOT NULL'' @ [nl]
              @ '');'' @ [nl] @ [nl])"
  by code_simp

section \<open>The claims on the backup run\<close>

text \<open>
  Claim C4. A Postgres backup that is given a table list and returns a script has put
  no enum-type statement and no sequence statement into it, whatever the backup type
  and whatever sequences and types the database holds; the script is the text of the
  fragments.
\<close>

theorem table_filter_excludes_sequences_and_types:
  assumes "postgres_backup_fragments db backup_type (Some ts) include_permissions = Inr frags"
  shows "TypeStatement name \<notin> set (map fst frags)
    \<and> SequenceStatement name \<notin> set (map fst frags)
    \<and> postgres_backup db backup_type (Some ts) include_permissions = Inr (concat (map snd frags))"
proof -
  obtain all_tables incl tys seqs where
    tt: "target_tables db (Some ts) = Inr (all_tables, incl)"
    and st: "map fst frags = script_statements db backup_type include_permissions all_tables tys seqs"
    and no: "\<not> incl \<longrightarrow> tys = [] \<and> seqs = []"
    using postgres_backup_statements [OF assms] by blast
  from tt have "\<not> incl" by (simp add: target_tables_Some)
  with no have "tys = []" "seqs = []" by simp_all
  with st have "TypeStatement name \<notin> set (map fst frags)"
    "SequenceStatement name \<notin> set (map fst frags)"
    by (auto simp: script_statements_def)
  moreover have "postgres_backup db backup_type (Some ts) include_permissions
      = Inr (concat (map snd frags))"
    by (simp add: postgres_backup_def assms)
  ultimately show ?thesis by simp
qed

theorem table_filter_excludes_sequences_and_types_witness:
  "pg_sequences shop = [''users_id_seq'']
   \<and> (\<exists>frags. postgres_backup_fragments shop ''structure_data'' (Some [''orders'', ''users'']) True = Inr frags
        \<and> map fst frags = [Preamble, TableStatement ''orders'', TableStatement ''users'',
             InsertStatement ''users'', ForeignKeyStatement ''orders'']
        \<and> SequenceStatement ''users_id_seq'' \<notin> set (map fst frags)
        \<and> TypeStatement ''mood'' \<notin> set (map fst frags))"
proof -
  let ?r = "postgres_backup_fragments shop ''structure_data'' (Some [''orders'', ''users'']) True"
  have r: "?r = Inr (projr ?r)" by code_simp
  have k: "map fst (projr ?r) = [Preamble, TableStatement ''orders'', TableStatement ''users'',
             InsertStatement ''users'', ForeignKeyStatement ''orders'']"
    by code_simp
  have s: "pg_sequences shop = [''users_id_seq'']" by code_simp
  from table_filter_excludes_sequences_and_types [OF r, of "''users_id_seq''"]
  have 1: "SequenceStatement ''users_id_seq'' \<notin> set (map fst (projr ?r))" by (elim conjE)
  from table_filter_excludes_sequences_and_types [OF r, of "''mood''"]
  have 2: "TypeStatement ''mood'' \<notin> set (map fst (projr ?r))" by (elim conjE)
  from r k 1 2 have "\<exists>frags. ?r = Inr frags
        \<and> map fst frags = [Preamble, TableStatement ''orders'', TableStatement ''users'',
             InsertStatement ''users'', ForeignKeyStatement ''orders'']
        \<and> SequenceStatement ''users_id_seq'' \<notin> set (map fst frags)
        \<and> TypeStatement ''mood'' \<notin> set (map fst frags)"
    by (intro exI [of _ "projr ?r"] conjI)
  with s show ?thesis by (rule conjI)
qed



text \<open>
  Claim C6, on a Postgres run with a table list. The list is taken as given and no
  table type is read, so the view \<open>report\<close> of the example gets an \<open>INSERT\<close> statement;
  with no list the same database gives the view none, and the MySQL backup, which
  tests the table type, gives it none with the same list.
\<close>

theorem postgres_table_list_dumps_view:
  "(''report'', ''VIEW'') \<in> set (pg_tables shop)
   \<and> postgres_backup shop ''data'' (Some [''report'']) False
       = Inr (pg_preamble @ ''INSERT INTO public.report (n) VALUES '' @ [nl] @ ''(2);'' @ [nl])
   \<and> map_sum id (map fst) (postgres_backup_fragments shop ''data'' (Some [''report'']) False)
       = Inr [Preamble, InsertStatement ''report'']
   \<and> map_sum id (map fst) (postgres_backup_fragments shop ''data'' None False)
       = Inr [Preamble, InsertStatement ''users'']
   \<and> map_sum id (map (\<lambda>(k, frs). (k, map fst frs)))
        (mysql_backup mysql_shop ''data'' (Some [''report'']) False)
       = Inr [(''report'', [Header]), (''footer'', [Footer])]"
  by code_simp

text \<open>
  Claim C9, in the Postgres family. Neither \<open>PostgresBackup.backup\<close> nor
  \<open>PostgresBackupRestore.restore\<close> has a handler, and the backup manager wraps domain
  errors only: a driver fault leaves the backup, the manager and the restore as it
  was raised. The MySQL restore wraps the same fault in a \<open>RestoreError\<close>.
\<close>

theorem postgres_driver_fault_escapes:
  "postgres_backup shop_offline ''structure'' None False
      = Inl (Psycopg2Error ''server closed the connection unexpectedly'')
   \<and> manager_backup (PostgresBackup shop_offline) ''structure'' None False
      = Inl (Psycopg2Error ''server closed the connection unexpectedly'')
   \<and> postgres_restore refusing_server [''DROP TABLE t''] = ([], Some (Psycopg2Error ''syntax error''))
   \<and> mysql_restore refusing_server [''DROP TABLE t''] =
        ([], Some (RestoreError ''An error occurred while restoring the database: syntax error''
                    (MySQLError ''syntax error'')))"
  by code_simp

end
